theory Spec2Isabelle
  imports Main "HOL-Library.Word"
begin

unbundle bit_operations_syntax

section \<open>The mode-configuration core of drm_crtc.c\<close>

text \<open>
  A shallow embedding of \<^verbatim>\<open>linux-core/drm_crtc.c\<close>: the identifier registry, the
  framebuffer, CRTC and output objects of one device, the property system, the mode prober,
  the CRTC assignment and the set-configuration transaction.

  Conventions.
  \<^item> A pointer to a kernel object is an address (\<open>ptr\<close>); \<open>NULL\<close> is \<open>None\<close> of
    \<open>ptr option\<close>. The objects of one kind live in a heap of the device
    (\<open>crtcs\<close>, \<open>outputs\<close>, \<open>fbs\<close>, \<open>properties\<close>), and an intrusive list
    (\<open>crtc_list\<close>, \<open>output_list\<close>, \<open>fb_list\<close>) is the list of the addresses linked
    into it, in list order.
  \<^item> A list of modes hanging off an output is a list of mode values, in list order.
  \<^item> The driver's function pointers (\<open>output->funcs\<close>, \<open>crtc->funcs\<close>) are the fields
    of a \<open>drm_driver\<close>, indexed by the object's address. A callback is a function
    of its arguments; what it does to the hardware is recorded as an event of the run, and
    it does not write the objects of this file.
  \<^item> A function that can dereference \<open>NULL\<close>, index outside an array or shift an
    \<^verbatim>\<open>int\<close> by its width or more returns an \<open>option\<close>: \<open>None\<close> is that fault.
  \<^item> The outcome of a memory allocation is an argument of the function that allocates.
\<close>

subsection \<open>What the headers supply\<close>

text \<open>
  \<^verbatim>\<open>drm.h\<close> and \<^verbatim>\<open>drm_crtc.h\<close> are not part of the source file. The macros the code uses
  from them are the fields of a \<open>drm_header\<close>, an argument of every function that uses
  one; \<open>drm_mode_vrefresh\<close> (defined in \<^verbatim>\<open>drm_modes.c\<close>) is carried the same way.
\<close>

type_synonym ptr = nat

datatype drm_mode_status = MODE_OK | MODE_UNVERIFIED | MODE_REJECTED nat

datatype drm_output_status =
  output_status_connected | output_status_disconnected | output_status_unknown

record drm_display_mode =
  mode_id :: nat
  mode_name :: string
  mode_status :: drm_mode_status
  mode_type :: "32 word"
  clock :: int
  hdisplay :: int
  hsync_start :: int
  hsync_end :: int
  htotal :: int
  hskew :: int
  vdisplay :: int
  vsync_start :: int
  vsync_end :: int
  vtotal :: int
  vscan :: int
  mode_flags :: "32 word"
  vrefresh :: int

record drm_header =
  DRM_MODE_TYPE_PREFERRED :: "32 word"
  DRM_MODE_TYPE_DEFAULT :: "32 word"
  V_NHSYNC :: "32 word"
  V_NVSYNC :: "32 word"
  DRM_MODE_PROP_RANGE :: "32 word"
  DRM_MODE_PROP_IMMUTABLE :: "32 word"
  DRM_MODE_PROP_ENUM :: "32 word"
  DRM_PROP_NAME_LEN :: nat
  drm_mode_vrefresh :: "drm_display_mode \<Rightarrow> int"

text \<open>The errno values of the kernel.\<close>

definition EINVAL :: int where "EINVAL = 22"
definition ENOMEM :: int where "ENOMEM = 12"
definition ENOSPC :: int where "ENOSPC = 28"

subsection \<open>The objects of a device\<close>

record drm_framebuffer =
  fb_id :: nat
  fb_width :: int
  fb_height :: int
  fb_pitch :: int
  fb_bits_per_pixel :: int
  fb_depth :: int

record drm_crtc =
  crtc_id :: nat
  crtc_fb :: "ptr option"
  crtc_enabled :: bool
  crtc_mode :: drm_display_mode
  crtc_x :: int
  crtc_y :: int
  desired_mode :: "drm_display_mode option"
  desired_x :: int
  desired_y :: int

text \<open>
  \<open>property_ids\<close> and \<open>property_values\<close> are the two arrays of
  \<^verbatim>\<open>DRM_OUTPUT_MAX_PROPERTY\<close> slots; a slot whose id is 0 is empty.
\<close>

record drm_output =
  output_id :: nat
  output_crtc :: "ptr option"
  output_status :: drm_output_status
  modes :: "drm_display_mode list"
  probed_modes :: "drm_display_mode list"
  user_modes :: "drm_display_mode list"
  possible_crtcs :: "64 word"
  possible_clones :: "64 word"
  initial_x :: int
  initial_y :: int
  property_ids :: "nat list"
  property_values :: "64 word list"

record drm_property_enum =
  enum_value :: "64 word"
  enum_name :: string

text \<open>
  \<open>prop_values\<close> is the array \<^verbatim>\<open>property->values\<close> of \<^verbatim>\<open>num_values\<close> entries
  (its length is \<^verbatim>\<open>num_values\<close>).
\<close>

record drm_property =
  prop_id :: nat
  prop_flags :: "32 word"
  prop_name :: string
  prop_values :: "64 word list"
  enum_blob_list :: "drm_property_enum list"

text \<open>The identifier tree \<^verbatim>\<open>crtc_idr\<close>: the live identifiers, each with its pointer.\<close>

type_synonym idr = "(nat \<times> ptr) list"

record drm_device =
  crtc_idr :: idr
  fb_list :: "ptr list"
  crtc_list :: "ptr list"
  output_list :: "ptr list"
  num_fb :: int
  fbs :: "ptr \<Rightarrow> drm_framebuffer"
  crtcs :: "ptr \<Rightarrow> drm_crtc"
  outputs :: "ptr \<Rightarrow> drm_output"
  properties :: "ptr \<Rightarrow> drm_property"

subsection \<open>The identifier registry\<close>

text \<open>
  Modelled from the spec: \<^verbatim>\<open>idr_pre_get\<close>, \<^verbatim>\<open>idr_get_new_above\<close>, \<^verbatim>\<open>idr_find\<close> and
  \<^verbatim>\<open>idr_remove\<close> belong to the kernel's idr library and are not in the source file.
  Section 4.1 of the specification gives their contract: an allocation returns an identifier
  that is not live, or fails when the space is exhausted; a released identifier resolves to
  nothing. \<open>idr_get_new_above t p start\<close> takes the smallest identifier from \<open>start\<close> on
  that is not live, up to the largest identifier \<open>MAX_ID\<close>.
\<close>

definition MAX_ID :: nat where "MAX_ID = 2 ^ 31 - 1"

fun idr_next_free :: "nat list \<Rightarrow> nat \<Rightarrow> nat \<Rightarrow> nat option" where
  "idr_next_free live i 0 = (if i \<in> set live then None else Some i)"
| "idr_next_free live i (Suc n) =
     (if i \<in> set live then idr_next_free live (Suc i) n else Some i)"

definition idr_get_new_above :: "idr \<Rightarrow> ptr \<Rightarrow> nat \<Rightarrow> int + (nat \<times> idr)" where
  "idr_get_new_above t p start =
     (case idr_next_free (map fst t) start (length t) of
        None \<Rightarrow> Inl (- ENOSPC)
      | Some i \<Rightarrow> if MAX_ID < i then Inl (- ENOSPC) else Inr (i, (i, p) # t))"

definition idr_find :: "idr \<Rightarrow> nat \<Rightarrow> ptr option" where
  "idr_find t i = map_of t i"

definition idr_remove :: "idr \<Rightarrow> nat \<Rightarrow> idr" where
  "idr_remove t i = filter (\<lambda>e. fst e \<noteq> i) t"

text \<open>
  \<^verbatim>\<open>drm_idr_get\<close> (lines 119-134). \<open>pre\<close> is the outcome of \<^verbatim>\<open>idr_pre_get\<close>: when it
  fails the function returns 0. Otherwise the identifier is allocated from 1 on; when
  \<^verbatim>\<open>idr_get_new_above\<close> fails, \<^verbatim>\<open>new_id\<close> keeps its initial 0. The retry on
  \<^verbatim>\<open>-EAGAIN\<close> runs the same two calls again, so a run has the outcome of its last round.
\<close>

definition drm_idr_get :: "drm_device \<Rightarrow> bool \<Rightarrow> ptr \<Rightarrow> nat \<times> drm_device" where
  "drm_idr_get dev pre p =
     (if \<not> pre then (0, dev)
      else case idr_get_new_above (crtc_idr dev) p 1 of
             Inl e \<Rightarrow> (0, dev)
           | Inr (new_id, t) \<Rightarrow> (new_id, dev\<lparr>crtc_idr := t\<rparr>))"

text \<open>\<^verbatim>\<open>drm_idr_put\<close> (lines 146-149).\<close>

definition drm_idr_put :: "drm_device \<Rightarrow> nat \<Rightarrow> drm_device" where
  "drm_idr_put dev i = dev\<lparr>crtc_idr := idr_remove (crtc_idr dev) i\<rparr>"

text \<open>
  A sequence of operations on the registry of one device: an allocation (with the outcome of
  \<^verbatim>\<open>idr_pre_get\<close> and the pointer to register) or a release.
\<close>

datatype idr_op = Allocate bool ptr | Release nat

fun idr_step :: "drm_device \<Rightarrow> idr_op \<Rightarrow> drm_device" where
  "idr_step dev (Allocate pre p) = snd (drm_idr_get dev pre p)"
| "idr_step dev (Release i) = drm_idr_put dev i"

definition idr_run :: "drm_device \<Rightarrow> idr_op list \<Rightarrow> drm_device" where
  "idr_run dev ops = foldl idr_step dev ops"

definition live_ids :: "drm_device \<Rightarrow> nat set" where
  "live_ids dev = fst ` set (crtc_idr dev)"

subsection \<open>Writing through a pointer\<close>

definition crtc_upd :: "drm_device \<Rightarrow> ptr \<Rightarrow> (drm_crtc \<Rightarrow> drm_crtc) \<Rightarrow> drm_device" where
  "crtc_upd dev c f = dev\<lparr>crtcs := (crtcs dev)(c := f (crtcs dev c))\<rparr>"

definition output_upd :: "drm_device \<Rightarrow> ptr \<Rightarrow> (drm_output \<Rightarrow> drm_output) \<Rightarrow> drm_device" where
  "output_upd dev out f = dev\<lparr>outputs := (outputs dev)(out := f (outputs dev out))\<rparr>"

subsection \<open>Framebuffers\<close>

text \<open>
  \<^verbatim>\<open>drm_framebuffer_destroy\<close> (lines 215-231). First the loop over the CRTC list
  (\<open>fb_remove_from_crtcs\<close>, lines 221-224), then the release of the identifier, then
  \<^verbatim>\<open>list_del\<close>, which takes the framebuffer out of the list it is linked into, and the
  counter. \<^verbatim>\<open>kfree\<close> leaves the heap of the model as it is.
\<close>

definition fb_remove_from_crtcs :: "drm_device \<Rightarrow> ptr \<Rightarrow> drm_device" where
  "fb_remove_from_crtcs dev fb =
     foldl (\<lambda>d crtc. if crtc_fb (crtcs d crtc) = Some fb
                      then crtc_upd d crtc (\<lambda>c. c\<lparr>crtc_fb := None\<rparr>) else d)
       dev (crtc_list dev)"

definition drm_framebuffer_destroy :: "drm_device \<Rightarrow> ptr \<Rightarrow> drm_device" where
  "drm_framebuffer_destroy dev fb =
     (let dev1 = fb_remove_from_crtcs dev fb;
          dev2 = drm_idr_put dev1 (fb_id (fbs dev1 fb))
      in dev2\<lparr>fb_list := removeAll fb (fb_list dev2), num_fb := num_fb dev2 - 1\<rparr>)"

text \<open>The invariant of the data model: a CRTC's framebuffer, when set, is in the store.\<close>

definition crtc_fbs_live :: "drm_device \<Rightarrow> bool" where
  "crtc_fbs_live dev =
     list_all (\<lambda>crtc. case crtc_fb (crtcs dev crtc) of
                         None \<Rightarrow> True | Some fb \<Rightarrow> fb \<in> set (fb_list dev))
       (crtc_list dev)"

subsection \<open>The property system\<close>

text \<open>
  \<^verbatim>\<open>strncpy(dst, name, DRM_PROP_NAME_LEN); dst[DRM_PROP_NAME_LEN-1] = '\0'\<close>: the
  characters of \<open>name\<close> before its terminator, cut to the size of the field.
\<close>

definition c_name :: "nat \<Rightarrow> string \<Rightarrow> string" where
  "c_name len s = take (len - 1) (takeWhile (\<lambda>c. c \<noteq> CHR 0x00) s)"

text \<open>
  The loop of lines 2204-2210: the first entry whose value is \<open>v\<close> takes the name, and
  the function returns; \<open>None\<close> when the loop ends without a match.
\<close>

fun enum_rename ::
  "drm_property_enum list \<Rightarrow> 64 word \<Rightarrow> string \<Rightarrow> drm_property_enum list option" where
  "enum_rename [] v n = None"
| "enum_rename (e # es) v n =
     (if enum_value e = v then Some (e\<lparr>enum_name := n\<rparr> # es)
      else map_option ((#) e) (enum_rename es v n))"

text \<open>
  \<^verbatim>\<open>drm_property_add_enum\<close> (lines 2195-2224). \<open>alloc\<close> is whether \<^verbatim>\<open>kzalloc\<close>
  succeeds. \<^verbatim>\<open>property->values[index] = value\<close> with \<open>index\<close> outside the array is the
  fault \<open>None\<close>.
\<close>

definition drm_property_add_enum ::
  "drm_header \<Rightarrow> bool \<Rightarrow> drm_property \<Rightarrow> int \<Rightarrow> 64 word \<Rightarrow> string
     \<Rightarrow> (int \<times> drm_property) option" where
  "drm_property_add_enum H alloc property index v name =
     (if prop_flags property AND DRM_MODE_PROP_ENUM H = 0 then Some (- EINVAL, property)
      else case enum_rename (enum_blob_list property) v (c_name (DRM_PROP_NAME_LEN H) name) of
             Some es \<Rightarrow> Some (0, property\<lparr>enum_blob_list := es\<rparr>)
           | None \<Rightarrow>
               if \<not> alloc then Some (- ENOMEM, property)
               else if index < 0 \<or> int (length (prop_values property)) \<le> index then None
               else Some (0, property
                      \<lparr>prop_values := (prop_values property)[nat index := v],
                       enum_blob_list := enum_blob_list property @
                         [\<lparr>enum_value = v,
                           enum_name = c_name (DRM_PROP_NAME_LEN H) name\<rparr>]\<rparr>))"

subsection \<open>The driver and the events of a run\<close>

text \<open>
  The calls into the driver that a run makes, in order. A fixup carries what it returned;
  \<open>Output_dpms\<close> and \<open>Crtc_dpms\<close> are the calls with \<^verbatim>\<open>DPMSModeOff\<close>.
\<close>

datatype event =
    Output_mode_fixup ptr bool
  | Crtc_mode_fixup ptr bool
  | Output_prepare ptr
  | Crtc_prepare ptr
  | Crtc_mode_set ptr drm_display_mode "drm_display_mode option" int int
  | Output_mode_set ptr drm_display_mode "drm_display_mode option"
  | Crtc_commit ptr
  | Output_commit ptr
  | Crtc_mode_set_base ptr int int
  | Output_dpms ptr
  | Crtc_dpms ptr
  | Output_set_property ptr ptr "64 word"

text \<open>
  The function pointers of \<^verbatim>\<open>output->funcs\<close> and \<^verbatim>\<open>crtc->funcs\<close>, by the address of
  the object. A \<^verbatim>\<open>mode_fixup\<close> takes the mode and the adjusted mode (\<open>None\<close> when the
  copy could not be allocated) and returns its verdict and the contents it leaves in the
  adjusted mode. \<open>crtc_has_mode_set_base\<close> is whether \<^verbatim>\<open>mode_set_base\<close> is set, and
  \<open>output_set_property\<close> is \<open>None\<close> when \<^verbatim>\<open>set_property\<close> is \<^verbatim>\<open>NULL\<close>: the code
  tests both. \<open>output_get_modes\<close> returns the modes the driver adds to the front of the
  probed list and the value it returns.
\<close>

record drm_driver =
  output_mode_fixup ::
    "ptr \<Rightarrow> drm_display_mode \<Rightarrow> drm_display_mode option \<Rightarrow> bool \<times> drm_display_mode"
  crtc_mode_fixup ::
    "ptr \<Rightarrow> drm_display_mode \<Rightarrow> drm_display_mode option \<Rightarrow> bool \<times> drm_display_mode"
  crtc_has_mode_set_base :: "ptr \<Rightarrow> bool"
  output_set_property :: "ptr \<Rightarrow> (ptr \<Rightarrow> 64 word \<Rightarrow> int) option"
  output_detect :: "ptr \<Rightarrow> drm_output_status"
  output_get_modes :: "ptr \<Rightarrow> drm_display_mode list \<times> int"
  output_mode_valid :: "ptr \<Rightarrow> drm_display_mode \<Rightarrow> drm_mode_status"

text \<open>
  \<^verbatim>\<open>drm_mode_output_property_set_ioctl\<close> (lines 2473-2530). The request carries
  \<^verbatim>\<open>output_id\<close>, \<^verbatim>\<open>prop_id\<close> and \<^verbatim>\<open>value\<close>. An \<^verbatim>\<open>idr_find\<close> gives a pointer, and the
  object read through it must carry the identifier asked for. The search of lines 2488-2495
  is over all the slots of \<open>property_ids\<close>; the search of lines 2513-2518 is over all
  the entries of \<open>prop_values\<close>. Reading \<^verbatim>\<open>values[0]\<close> or \<^verbatim>\<open>values[1]\<close> of an array
  that is shorter is the fault \<open>None\<close>. \<^verbatim>\<open>ret\<close> starts as \<^verbatim>\<open>-EINVAL\<close> and is only
  written by the call of line 2525.
\<close>

record drm_mode_output_set_property =
  sp_value :: "64 word"
  sp_prop_id :: nat
  sp_output_id :: nat

definition call_set_property ::
  "drm_driver \<Rightarrow> ptr \<Rightarrow> ptr \<Rightarrow> 64 word \<Rightarrow> (int \<times> event list) option" where
  "call_set_property drv out p v =
     (case output_set_property drv out of
        None \<Rightarrow> Some (- EINVAL, [])
      | Some f \<Rightarrow> Some (f p v, [Output_set_property out p v]))"

definition drm_mode_output_property_set_ioctl ::
  "drm_driver \<Rightarrow> drm_header \<Rightarrow> drm_device \<Rightarrow> drm_mode_output_set_property
     \<Rightarrow> (int \<times> event list) option" where
  "drm_mode_output_property_set_ioctl drv H dev req =
     (case idr_find (crtc_idr dev) (sp_output_id req) of
        None \<Rightarrow> Some (- EINVAL, [])
      | Some out \<Rightarrow>
          if output_id (outputs dev out) \<noteq> sp_output_id req then Some (- EINVAL, [])
          else if sp_prop_id req \<notin> set (property_ids (outputs dev out))
          then Some (- EINVAL, [])
          else (case idr_find (crtc_idr dev) (sp_prop_id req) of
            None \<Rightarrow> Some (- EINVAL, [])
          | Some p \<Rightarrow>
              let property = properties dev p in
              if prop_id property \<noteq> sp_prop_id req then Some (- EINVAL, [])
              else if prop_flags property AND DRM_MODE_PROP_IMMUTABLE H \<noteq> 0
              then Some (- EINVAL, [])
              else if prop_flags property AND DRM_MODE_PROP_RANGE H \<noteq> 0 then
                (if length (prop_values property) < 2 then None
                 else if sp_value req < prop_values property ! 0 then Some (- EINVAL, [])
                 else if prop_values property ! 1 < sp_value req then Some (- EINVAL, [])
                 else call_set_property drv out p (sp_value req))
              else if sp_value req \<notin> set (prop_values property) then Some (- EINVAL, [])
              else call_set_property drv out p (sp_value req)))"

subsection \<open>Modes\<close>

text \<open>
  \<^verbatim>\<open>drm_mode_create\<close> (lines 710-720): \<open>kz\<close> is what \<^verbatim>\<open>kzalloc\<close> returns, a zeroed
  mode at a new address or \<^verbatim>\<open>NULL\<close>, and \<open>pre\<close> the outcome of \<^verbatim>\<open>idr_pre_get\<close>.
  \<^verbatim>\<open>drm_mode_destroy\<close> (lines 733-738) releases the identifier.
\<close>

definition zero_mode :: drm_display_mode where
  "zero_mode =
     \<lparr>mode_id = 0, mode_name = [], mode_status = MODE_OK, mode_type = 0, clock = 0,
      hdisplay = 0, hsync_start = 0, hsync_end = 0, htotal = 0, hskew = 0,
      vdisplay = 0, vsync_start = 0, vsync_end = 0, vtotal = 0, vscan = 0,
      mode_flags = 0, vrefresh = 0\<rparr>"

definition drm_mode_create ::
  "drm_device \<Rightarrow> ptr option \<Rightarrow> bool \<Rightarrow> drm_display_mode option \<times> drm_device" where
  "drm_mode_create dev kz pre =
     (case kz of
        None \<Rightarrow> (None, dev)
      | Some nmode \<Rightarrow>
          (case drm_idr_get dev pre nmode of
             (i, dev') \<Rightarrow> (Some (zero_mode\<lparr>mode_id := i\<rparr>), dev')))"

definition drm_mode_destroy :: "drm_device \<Rightarrow> drm_display_mode \<Rightarrow> drm_device" where
  "drm_mode_destroy dev m = drm_idr_put dev (mode_id m)"

text \<open>
  Modelled from the spec: \<^verbatim>\<open>drm_mode_duplicate\<close> and \<^verbatim>\<open>drm_mode_equal\<close> are defined in
  \<^verbatim>\<open>drm_modes.c\<close>, which is not among the sources. The duplicate is a new mode
  (\<^verbatim>\<open>drm_mode_create\<close>) with the fields of the original and an identifier of its own;
  \<^verbatim>\<open>NULL\<close> when the mode cannot be created. Two modes are equal when their
  timing fields and flags are (the specification's "full timing-field equality").
\<close>

definition drm_mode_duplicate ::
  "drm_device \<Rightarrow> ptr option \<Rightarrow> bool \<Rightarrow> drm_display_mode
     \<Rightarrow> drm_display_mode option \<times> drm_device" where
  "drm_mode_duplicate dev kz pre m =
     (case drm_mode_create dev kz pre of
        (None, dev') \<Rightarrow> (None, dev')
      | (Some nmode, dev') \<Rightarrow> (Some (m\<lparr>mode_id := mode_id nmode\<rparr>), dev'))"

definition drm_mode_equal :: "drm_display_mode \<Rightarrow> drm_display_mode \<Rightarrow> bool" where
  "drm_mode_equal m1 m2 \<longleftrightarrow>
     clock m1 = clock m2 \<and> hdisplay m1 = hdisplay m2 \<and> hsync_start m1 = hsync_start m2 \<and>
     hsync_end m1 = hsync_end m2 \<and> htotal m1 = htotal m2 \<and> hskew m1 = hskew m2 \<and>
     vdisplay m1 = vdisplay m2 \<and> vsync_start m1 = vsync_start m2 \<and>
     vsync_end m1 = vsync_end m2 \<and> vtotal m1 = vtotal m2 \<and> vscan m1 = vscan m2 \<and>
     mode_flags m1 = mode_flags m2"

text \<open>
  \<^verbatim>\<open>std_mode[0]\<close> (lines 319-323). The \<^verbatim>\<open>DRM_MODE\<close> macro of the header takes the name,
  the type, the clock, the horizontal timings and skew, the vertical timings and scan, and
  the flags, in this order; the status it sets is 0, which is \<open>MODE_OK\<close>.
\<close>

definition std_mode :: "drm_header \<Rightarrow> drm_display_mode" where
  "std_mode H =
     \<lparr>mode_id = 0, mode_name = ''640x480'', mode_status = MODE_OK,
      mode_type = DRM_MODE_TYPE_DEFAULT H, clock = 25200,
      hdisplay = 640, hsync_start = 656, hsync_end = 752, htotal = 800, hskew = 0,
      vdisplay = 480, vsync_start = 490, vsync_end = 492, vtotal = 525, vscan = 0,
      mode_flags = V_NHSYNC H OR V_NVSYNC H, vrefresh = 0\<rparr>"

text \<open>A mode is flagged preferred when its type has a bit of \<^verbatim>\<open>DRM_MODE_TYPE_PREFERRED\<close>.\<close>

definition mode_preferred :: "drm_header \<Rightarrow> drm_display_mode \<Rightarrow> bool" where
  "mode_preferred H m \<longleftrightarrow> mode_type m AND DRM_MODE_TYPE_PREFERRED H \<noteq> 0"

subsection \<open>The mode prober\<close>

text \<open>
  Modelled from the spec: \<^verbatim>\<open>drm_mode_output_list_update\<close>, \<^verbatim>\<open>drm_mode_validate_size\<close>,
  \<^verbatim>\<open>drm_mode_prune_invalid\<close>, \<^verbatim>\<open>drm_mode_list_concat\<close> and \<^verbatim>\<open>drm_mode_sort\<close> are
  defined in \<^verbatim>\<open>drm_modes.c\<close>, which is not among the sources. From section 4.3 of the
  specification:
  \<^item> the update merges the probed list into the usable list, keyed by equality of the
    timing fields: a probed mode equal to a usable one refreshes the status of that one,
    any other is moved to the end of the usable list; the probed list ends empty;
  \<^item> the size filter rejects a mode wider or higher than the bounds;
  \<^item> pruning drops every mode whose status is not \<open>MODE_OK\<close>;
  \<^item> the concatenation moves every mode of the first list to the end of the second;
  \<^item> the sort is stable, by width, then height, then refresh descending, then the
    preferred flag first.
\<close>

fun mode_list_merge ::
  "drm_display_mode list \<Rightarrow> drm_display_mode \<Rightarrow> drm_display_mode list" where
  "mode_list_merge [] pmode = [pmode]"
| "mode_list_merge (m # ms) pmode =
     (if drm_mode_equal pmode m then m\<lparr>mode_status := mode_status pmode\<rparr> # ms
      else m # mode_list_merge ms pmode)"

definition drm_mode_output_list_update :: "drm_output \<Rightarrow> drm_output" where
  "drm_mode_output_list_update output =
     output\<lparr>modes := foldl mode_list_merge (modes output) (probed_modes output),
            probed_modes := []\<rparr>"

definition drm_mode_validate_size ::
  "drm_display_mode list \<Rightarrow> int \<Rightarrow> int \<Rightarrow> drm_display_mode list" where
  "drm_mode_validate_size ms maxX maxY =
     map (\<lambda>m. if maxX < hdisplay m \<or> maxY < vdisplay m
               then m\<lparr>mode_status := MODE_REJECTED 0\<rparr> else m) ms"

definition drm_mode_prune_invalid :: "drm_display_mode list \<Rightarrow> drm_display_mode list" where
  "drm_mode_prune_invalid ms = filter (\<lambda>m. mode_status m = MODE_OK) ms"

definition drm_mode_before :: "drm_header \<Rightarrow> drm_display_mode \<Rightarrow> drm_display_mode \<Rightarrow> bool" where
  "drm_mode_before H a b \<longleftrightarrow>
     hdisplay a < hdisplay b \<or>
     hdisplay a = hdisplay b \<and>
       (vdisplay a < vdisplay b \<or>
        vdisplay a = vdisplay b \<and>
          (vrefresh b < vrefresh a \<or>
           vrefresh a = vrefresh b \<and> mode_preferred H a \<and> \<not> mode_preferred H b))"

fun mode_insert ::
  "drm_header \<Rightarrow> drm_display_mode \<Rightarrow> drm_display_mode list \<Rightarrow> drm_display_mode list" where
  "mode_insert H m [] = [m]"
| "mode_insert H m (x # xs) =
     (if drm_mode_before H x m then x # mode_insert H m xs else m # x # xs)"

definition drm_mode_sort :: "drm_header \<Rightarrow> drm_display_mode list \<Rightarrow> drm_display_mode list" where
  "drm_mode_sort H ms = foldr (mode_insert H) ms []"

text \<open>
  \<^verbatim>\<open>drm_crtc_probe_single_output_modes\<close> (lines 344-409), in three parts.
  \<open>probe_validated\<close> is the run of a connected output up to and including the pruning of
  line 379; \<open>probe_fallback\<close> is the body of the test of line 381, where adding a
  \<^verbatim>\<open>NULL\<close> duplicate to the probed list is the fault \<open>None\<close>; \<open>probe_finish\<close> is the
  sort and the last loop (\<^verbatim>\<open>drm_mode_set_crtcinfo\<close> writes fields that the mode of this
  file does not have).
\<close>

definition probe_detect :: "drm_driver \<Rightarrow> drm_device \<Rightarrow> ptr \<Rightarrow> drm_device" where
  "probe_detect drv dev out =
     output_upd dev out
       (\<lambda>ou. ou\<lparr>modes := map (\<lambda>m. m\<lparr>mode_status := MODE_UNVERIFIED\<rparr>) (modes ou),
               output_status := output_detect drv out\<rparr>)"

definition probe_validated ::
  "drm_driver \<Rightarrow> drm_device \<Rightarrow> ptr \<Rightarrow> int \<Rightarrow> int \<Rightarrow> drm_device" where
  "probe_validated drv dev out maxX maxY =
     (let dev1 = probe_detect drv dev out;
          ret = snd (output_get_modes drv out);
          dev2 = output_upd dev1 out
                   (\<lambda>ou. ou\<lparr>probed_modes := fst (output_get_modes drv out) @ probed_modes ou\<rparr>);
          dev3 = (if ret \<noteq> 0 then output_upd dev2 out drm_mode_output_list_update else dev2);
          dev4 = (if maxX \<noteq> 0 \<and> maxY \<noteq> 0
                  then output_upd dev3 out
                         (\<lambda>ou. ou\<lparr>modes := drm_mode_validate_size (modes ou) maxX maxY\<rparr>)
                  else dev3);
          dev5 = output_upd dev4 out
                   (\<lambda>ou. ou\<lparr>modes := map (\<lambda>m. if mode_status m = MODE_OK
                                      then m\<lparr>mode_status := output_mode_valid drv out m\<rparr>
                                      else m) (modes ou)\<rparr>)
      in output_upd dev5 out (\<lambda>ou. ou\<lparr>modes := drm_mode_prune_invalid (modes ou)\<rparr>))"

definition probe_fallback ::
  "drm_header \<Rightarrow> drm_device \<Rightarrow> ptr option \<Rightarrow> bool \<Rightarrow> ptr \<Rightarrow> drm_device option" where
  "probe_fallback H dev kz pre out =
     (case drm_mode_duplicate dev kz pre (std_mode H) of
        (None, dev') \<Rightarrow> None
      | (Some stdmode, dev') \<Rightarrow>
          Some (output_upd dev' out
                  (\<lambda>ou. ou\<lparr>modes := modes ou @ (stdmode # probed_modes ou),
                          probed_modes := []\<rparr>)))"

definition probe_finish :: "drm_header \<Rightarrow> drm_device \<Rightarrow> ptr \<Rightarrow> drm_device" where
  "probe_finish H dev out =
     output_upd dev out
       (\<lambda>ou. ou\<lparr>modes := map (\<lambda>m. m\<lparr>vrefresh := drm_mode_vrefresh H m\<rparr>)
                           (drm_mode_sort H (modes ou))\<rparr>)"

definition drm_crtc_probe_single_output_modes ::
  "drm_driver \<Rightarrow> drm_header \<Rightarrow> drm_device \<Rightarrow> ptr option \<Rightarrow> bool \<Rightarrow> ptr \<Rightarrow> int \<Rightarrow> int
     \<Rightarrow> drm_device option" where
  "drm_crtc_probe_single_output_modes drv H dev kz pre out maxX maxY =
     (if output_status (outputs (probe_detect drv dev out) out) = output_status_disconnected
      then Some (probe_detect drv dev out)
      else
        let dev6 = probe_validated drv dev out maxX maxY in
        if modes (outputs dev6 out) = []
        then map_option (\<lambda>d. probe_finish H d out) (probe_fallback H dev6 kz pre out)
        else Some (probe_finish H dev6 out))"

subsection \<open>The mode-apply protocol\<close>

text \<open>\<^verbatim>\<open>drm_crtc_in_use\<close> (lines 304-313).\<close>

definition drm_crtc_in_use :: "drm_device \<Rightarrow> ptr \<Rightarrow> bool" where
  "drm_crtc_in_use dev crtc =
     list_ex (\<lambda>out. output_crtc (outputs dev out) = Some crtc) (output_list dev)"

text \<open>
  The outputs a loop of \<^verbatim>\<open>drm_crtc_set_mode\<close> visits: those of the output list bound to
  the CRTC (the others are skipped by \<^verbatim>\<open>continue\<close>).
\<close>

definition crtc_outputs :: "drm_device \<Rightarrow> ptr \<Rightarrow> ptr list" where
  "crtc_outputs dev crtc =
     filter (\<lambda>out. output_crtc (outputs dev out) = Some crtc) (output_list dev)"

text \<open>
  A call of a \<^verbatim>\<open>mode_fixup\<close>: the adjusted mode is written through the pointer, and a
  \<^verbatim>\<open>NULL\<close> pointer stays \<^verbatim>\<open>NULL\<close>.
\<close>

definition call_fixup ::
  "(drm_display_mode \<Rightarrow> drm_display_mode option \<Rightarrow> bool \<times> drm_display_mode)
     \<Rightarrow> drm_display_mode \<Rightarrow> drm_display_mode option \<Rightarrow> bool \<times> drm_display_mode option" where
  "call_fixup f m adj = (case f m adj of (ok, a) \<Rightarrow> (ok, map_option (\<lambda>_. a) adj))"

text \<open>The loop of lines 475-483: it stops at the first output that rejects the mode.\<close>

fun fixup_outputs ::
  "drm_driver \<Rightarrow> drm_display_mode \<Rightarrow> drm_display_mode option \<Rightarrow> ptr list
     \<Rightarrow> bool \<times> drm_display_mode option \<times> event list" where
  "fixup_outputs drv m adj [] = (True, adj, [])"
| "fixup_outputs drv m adj (out # outs) =
     (case call_fixup (output_mode_fixup drv out) m adj of
        (ok, adj') \<Rightarrow>
          if \<not> ok then (False, adj', [Output_mode_fixup out False])
          else (case fixup_outputs drv m adj' outs of
                  (r, a, es) \<Rightarrow> (r, a, Output_mode_fixup out True # es)))"

text \<open>The calls of lines 490-530, after both fixups have accepted the mode.\<close>

definition mode_set_events ::
  "ptr \<Rightarrow> ptr list \<Rightarrow> drm_display_mode \<Rightarrow> drm_display_mode option \<Rightarrow> int \<Rightarrow> int
     \<Rightarrow> event list" where
  "mode_set_events crtc outs m adj x y =
     map Output_prepare outs @ [Crtc_prepare crtc, Crtc_mode_set crtc m adj x y] @
     map (\<lambda>out. Output_mode_set out m adj) outs @ [Crtc_commit crtc] @
     map Output_commit outs"

text \<open>
  Two kinds of calls: a fixup that rejected the mode, and the calls that prepare, set and
  commit a mode.
\<close>

fun rejected_fixup :: "event \<Rightarrow> bool" where
  "rejected_fixup (Output_mode_fixup out ok) = (\<not> ok)"
| "rejected_fixup (Crtc_mode_fixup crtc ok) = (\<not> ok)"
| "rejected_fixup e = False"

fun apply_call :: "event \<Rightarrow> bool" where
  "apply_call (Output_prepare out) = True"
| "apply_call (Crtc_prepare crtc) = True"
| "apply_call (Crtc_mode_set crtc m adj x y) = True"
| "apply_call (Output_mode_set out m adj) = True"
| "apply_call (Crtc_commit crtc) = True"
| "apply_call (Output_commit out) = True"
| "apply_call e = False"

text \<open>
  \<^verbatim>\<open>drm_crtc_set_mode\<close> (lines 437-546). The result is the value returned, the device and
  the calls made. \<^verbatim>\<open>mode_set_base\<close> is called without a test (line 466), and
  \<^verbatim>\<open>drm_mode_destroy\<close> reads the adjusted mode (line 533): each is the fault \<open>None\<close>
  when the pointer is \<^verbatim>\<open>NULL\<close>.
\<close>

definition drm_crtc_set_mode ::
  "drm_driver \<Rightarrow> drm_device \<Rightarrow> ptr option \<Rightarrow> bool \<Rightarrow> ptr \<Rightarrow> drm_display_mode \<Rightarrow> int \<Rightarrow> int
     \<Rightarrow> (bool \<times> drm_device \<times> event list) option" where
  "drm_crtc_set_mode drv dev kz pre crtc m x y =
     (case drm_mode_duplicate dev kz pre m of
        (adjusted_mode, dev0) \<Rightarrow>
          let dev1 = crtc_upd dev0 crtc (\<lambda>c. c\<lparr>crtc_enabled := drm_crtc_in_use dev0 crtc\<rparr>) in
          if \<not> crtc_enabled (crtcs dev1 crtc) then Some (True, dev1, [])
          else
            let saved_mode = crtc_mode (crtcs dev1 crtc);
                saved_x = crtc_x (crtcs dev1 crtc);
                saved_y = crtc_y (crtcs dev1 crtc);
                dev2 = crtc_upd dev1 crtc (\<lambda>c. c\<lparr>crtc_mode := m, crtc_x := x, crtc_y := y\<rparr>);
                restored = crtc_upd dev2 crtc
                  (\<lambda>c. c\<lparr>crtc_mode := saved_mode, crtc_x := saved_x, crtc_y := saved_y\<rparr>);
                outs = crtc_outputs dev2 crtc
            in
            if drm_mode_equal saved_mode (crtc_mode (crtcs dev2 crtc)) \<and>
               (saved_x \<noteq> crtc_x (crtcs dev2 crtc) \<or> saved_y \<noteq> crtc_y (crtcs dev2 crtc))
            then (if crtc_has_mode_set_base drv crtc
                  then Some (True, dev2, [Crtc_mode_set_base crtc x y]) else None)
            else
              (case fixup_outputs drv m adjusted_mode outs of
                 (False, adj, es) \<Rightarrow> Some (False, restored, es)
               | (True, adj, es) \<Rightarrow>
                   (case call_fixup (crtc_mode_fixup drv crtc) m adj of
                      (False, adj') \<Rightarrow> Some (False, restored, es @ [Crtc_mode_fixup crtc False])
                    | (True, adj') \<Rightarrow>
                        (case adj' of
                           None \<Rightarrow> None
                         | Some a \<Rightarrow>
                             Some (True, drm_mode_destroy dev2 a,
                                   es @ [Crtc_mode_fixup crtc True] @
                                   mode_set_events crtc outs m adj' x y)))))"

text \<open>
  Two conditions on the state a run of \<^verbatim>\<open>drm_crtc_set_mode\<close> starts from, for the
  statements below. \<open>set_mode_repositions\<close> is the test of lines 464-465: the mode is the
  one the CRTC has and the position is another. \<open>fixups_reject\<close> is that a fixup of lines
  475-487 returns false: that of an output bound to the CRTC, in the loop, or, when all of
  them accept the mode, that of the CRTC.
\<close>

definition set_mode_repositions ::
  "drm_device \<Rightarrow> ptr \<Rightarrow> drm_display_mode \<Rightarrow> int \<Rightarrow> int \<Rightarrow> bool" where
  "set_mode_repositions dev crtc m x y \<longleftrightarrow>
     drm_mode_equal (crtc_mode (crtcs dev crtc)) m \<and>
     (crtc_x (crtcs dev crtc) \<noteq> x \<or> crtc_y (crtcs dev crtc) \<noteq> y)"

definition fixups_reject ::
  "drm_driver \<Rightarrow> drm_device \<Rightarrow> ptr option \<Rightarrow> bool \<Rightarrow> ptr \<Rightarrow> drm_display_mode \<Rightarrow> bool" where
  "fixups_reject drv dev kz pre crtc m =
     (case fixup_outputs drv m (fst (drm_mode_duplicate dev kz pre m)) (crtc_outputs dev crtc) of
        (ok, adj, es) \<Rightarrow> \<not> ok \<or> \<not> fst (call_fixup (crtc_mode_fixup drv crtc) m adj))"

text \<open>\<^verbatim>\<open>drm_disable_unused_functions\<close> (lines 559-573): the calls it makes.\<close>

definition drm_disable_unused_functions :: "drm_device \<Rightarrow> event list" where
  "drm_disable_unused_functions dev =
     map Output_dpms (filter (\<lambda>out. output_crtc (outputs dev out) = None) (output_list dev)) @
     map Crtc_dpms (filter (\<lambda>crtc. \<not> crtc_enabled (crtcs dev crtc)) (crtc_list dev))"

subsection \<open>The configuration transaction\<close>

text \<open>
  \<^verbatim>\<open>struct drm_mode_set\<close>: the mode is the mode pointed to (\<open>None\<close> for \<^verbatim>\<open>NULL\<close>), and
  \<open>set_outputs\<close> is the array \<^verbatim>\<open>outputs\<close> of \<^verbatim>\<open>num_outputs\<close> pointers.
\<close>

record drm_mode_set =
  set_fb :: "ptr option"
  set_crtc :: "ptr option"
  set_mode :: "drm_display_mode option"
  set_x :: int
  set_y :: int
  set_outputs :: "ptr list"

text \<open>
  One round of the loop of lines 1169-1185, on the state \<open>(changed, dev, save_crtcs)\<close>:
  the binding of the output is saved, then the output is bound to the CRTC when the request
  lists it, unbound when it was on the CRTC and is not listed, and left alone otherwise.
\<close>

definition set_config_bind ::
  "ptr \<Rightarrow> ptr list \<Rightarrow> bool \<times> drm_device \<times> ptr option list \<Rightarrow> ptr
     \<Rightarrow> bool \<times> drm_device \<times> ptr option list" where
  "set_config_bind crtc outs st out =
     (case st of
        (changed, dev, save_crtcs) \<Rightarrow>
          let cur = output_crtc (outputs dev out);
              new_crtc = (if out \<in> set outs then Some crtc
                          else if cur = Some crtc then None else cur)
          in if new_crtc \<noteq> cur
             then (True, output_upd dev out (\<lambda>ou. ou\<lparr>output_crtc := new_crtc\<rparr>),
                   save_crtcs @ [cur])
             else (changed, dev, save_crtcs @ [cur]))"

text \<open>The loop of lines 1200-1202: the saved bindings are written back, by position.\<close>

definition set_config_restore :: "drm_device \<Rightarrow> ptr option list \<Rightarrow> drm_device" where
  "set_config_restore dev save_crtcs =
     foldl (\<lambda>d (out, c). output_upd d out (\<lambda>ou. ou\<lparr>output_crtc := c\<rparr>))
       dev (zip (output_list dev) save_crtcs)"

text \<open>
  \<^verbatim>\<open>drm_crtc_set_config\<close> (lines 1125-1220). \<open>alloc\<close> is whether the \<^verbatim>\<open>kzalloc\<close> of
  \<^verbatim>\<open>save_crtcs\<close> succeeds; \<open>kz\<close> and \<open>pre\<close> are passed on to \<^verbatim>\<open>drm_crtc_set_mode\<close>.
  The result is the value returned, the device and the calls made.
\<close>

definition drm_crtc_set_config ::
  "drm_driver \<Rightarrow> drm_device \<Rightarrow> bool \<Rightarrow> ptr option \<Rightarrow> bool \<Rightarrow> drm_mode_set option
     \<Rightarrow> (int \<times> drm_device \<times> event list) option" where
  "drm_crtc_set_config drv dev alloc kz pre req =
     (case req of
        None \<Rightarrow> Some (- EINVAL, dev, [])
      | Some s \<Rightarrow>
     (case set_crtc s of
        None \<Rightarrow> Some (- EINVAL, dev, [])
      | Some crtc \<Rightarrow>
          let save_enabled = crtc_enabled (crtcs dev crtc) in
          if \<not> alloc then Some (- ENOMEM, dev, [])
          else
            let flip_or_move =
                  (crtc_fb (crtcs dev crtc) \<noteq> set_fb s \<or>
                   set_x s \<noteq> crtc_x (crtcs dev crtc) \<or> set_y s \<noteq> crtc_y (crtcs dev crtc));
                changed0 =
                  (case set_mode s of
                     None \<Rightarrow> False
                   | Some m \<Rightarrow> \<not> drm_mode_equal m (crtc_mode (crtcs dev crtc)))
            in
            (case foldl (set_config_bind crtc (set_outputs s)) (changed0, dev, [])
                    (output_list dev) of
               (changed1, dev1, save_crtcs) \<Rightarrow>
                 let changed = (changed1 \<or> flip_or_move \<and> \<not> crtc_has_mode_set_base drv crtc) in
                 if changed then
                   let dev2 = crtc_upd dev1 crtc
                         (\<lambda>c. c\<lparr>crtc_fb := set_fb s, crtc_enabled := (set_mode s \<noteq> None)\<rparr>)
                   in
                   (case set_mode s of
                      None \<Rightarrow> Some (0, dev2, drm_disable_unused_functions dev2)
                    | Some m \<Rightarrow>
                        (case drm_crtc_set_mode drv dev2 kz pre crtc m (set_x s) (set_y s) of
                           None \<Rightarrow> None
                         | Some (False, dev3, es) \<Rightarrow>
                             Some (- EINVAL,
                                   set_config_restore
                                     (crtc_upd dev3 crtc (\<lambda>c. c\<lparr>crtc_enabled := save_enabled\<rparr>))
                                     save_crtcs,
                                   es)
                         | Some (True, dev3, es) \<Rightarrow>
                             let dev4 = crtc_upd dev3 crtc
                                   (\<lambda>c. c\<lparr>desired_x := set_x s, desired_y := set_y s,
                                           desired_mode := Some m\<rparr>)
                             in Some (0, dev4, es @ drm_disable_unused_functions dev4)))
                 else if flip_or_move then
                   Some (0, crtc_upd dev1 crtc (\<lambda>c. c\<lparr>crtc_fb := set_fb s\<rparr>),
                         [Crtc_mode_set_base crtc (set_x s) (set_y s)])
                 else Some (0, dev1, []))))"

text \<open>
  For the statements below: the state of the loop of lines 1169-1185 when it ends, for a
  request on the CRTC \<open>crtc\<close>; the device it leaves, which is the one whose bindings the
  mode-apply protocol sees; and the value of \<^verbatim>\<open>changed\<close> at line 1191.
\<close>

definition set_config_loop ::
  "drm_device \<Rightarrow> drm_mode_set \<Rightarrow> ptr \<Rightarrow> bool \<times> drm_device \<times> ptr option list" where
  "set_config_loop dev s crtc =
     foldl (set_config_bind crtc (set_outputs s))
       (case set_mode s of
          None \<Rightarrow> False
        | Some m \<Rightarrow> \<not> drm_mode_equal m (crtc_mode (crtcs dev crtc)),
        dev, [])
       (output_list dev)"

definition set_config_bound :: "drm_device \<Rightarrow> drm_mode_set \<Rightarrow> ptr \<Rightarrow> drm_device" where
  "set_config_bound dev s crtc = fst (snd (set_config_loop dev s crtc))"

definition set_config_changed ::
  "drm_driver \<Rightarrow> drm_device \<Rightarrow> drm_mode_set \<Rightarrow> ptr \<Rightarrow> bool" where
  "set_config_changed drv dev s crtc \<longleftrightarrow>
     fst (set_config_loop dev s crtc) \<or>
     (crtc_fb (crtcs dev crtc) \<noteq> set_fb s \<or>
      set_x s \<noteq> crtc_x (crtcs dev crtc) \<or> set_y s \<noteq> crtc_y (crtcs dev crtc)) \<and>
     \<not> crtc_has_mode_set_base drv crtc"

subsection \<open>The assignment of CRTCs\<close>






text \<open>
  The mask of line 958. \<^verbatim>\<open>1 << c\<close> is computed in \<^verbatim>\<open>int\<close>, which has 32 bits, and then
  converted to the \<^verbatim>\<open>unsigned long\<close> of \<^verbatim>\<open>possible_crtcs\<close>, which has 64: for \<open>c\<close> below
  31 it is \<open>2 ^ c\<close>; for \<open>c = 31\<close> it is \<^verbatim>\<open>INT_MIN\<close>, whose conversion sets the bits 31 to
  63; from \<open>c = 32\<close> on the shift is not defined, which is the fault \<open>None\<close>.
\<close>

definition crtc_mask :: "nat \<Rightarrow> 64 word option" where
  "crtc_mask c = (if c < 32 then Some (scast (push_bit c (1 :: 32 word))) else None)"





subsection \<open>Example objects\<close>

text \<open>
  The values the macros have in the headers of this revision, with the refresh rate taken as
  the pixel clock over the size of the frame; zeroed objects; a device without objects; and
  a driver that accepts every mode, reports every output connected and detects no mode.
  They are the inputs of the examples below.
\<close>

definition drm_h :: drm_header where
  "drm_h =
     \<lparr>DRM_MODE_TYPE_PREFERRED = 8, DRM_MODE_TYPE_DEFAULT = 16, V_NHSYNC = 2, V_NVSYNC = 8,
      DRM_MODE_PROP_RANGE = 2, DRM_MODE_PROP_IMMUTABLE = 4, DRM_MODE_PROP_ENUM = 8,
      DRM_PROP_NAME_LEN = 32,
      drm_mode_vrefresh = (\<lambda>m. (clock m * 1000) div (htotal m * vtotal m))\<rparr>"

definition zero_fb :: drm_framebuffer where
  "zero_fb =
     \<lparr>fb_id = 0, fb_width = 0, fb_height = 0, fb_pitch = 0, fb_bits_per_pixel = 0,
      fb_depth = 0\<rparr>"

definition zero_crtc :: drm_crtc where
  "zero_crtc =
     \<lparr>crtc_id = 0, crtc_fb = None, crtc_enabled = False, crtc_mode = zero_mode,
      crtc_x = 0, crtc_y = 0, desired_mode = None, desired_x = 0, desired_y = 0\<rparr>"

definition zero_output :: drm_output where
  "zero_output =
     \<lparr>output_id = 0, output_crtc = None, output_status = output_status_unknown,
      modes = [], probed_modes = [], user_modes = [], possible_crtcs = 0,
      possible_clones = 0, initial_x = 0, initial_y = 0,
      property_ids = replicate 16 0, property_values = replicate 16 0\<rparr>"

definition zero_property :: drm_property where
  "zero_property =
     \<lparr>prop_id = 0, prop_flags = 0, prop_name = [], prop_values = [], enum_blob_list = []\<rparr>"

definition empty_device :: drm_device where
  "empty_device =
     \<lparr>crtc_idr = [], fb_list = [], crtc_list = [], output_list = [], num_fb = 0,
      fbs = (\<lambda>_. zero_fb), crtcs = (\<lambda>_. zero_crtc), outputs = (\<lambda>_. zero_output),
      properties = (\<lambda>_. zero_property)\<rparr>"

definition accept_driver :: drm_driver where
  "accept_driver =
     \<lparr>output_mode_fixup = (\<lambda>_ m a. (True, case a of None \<Rightarrow> m | Some x \<Rightarrow> x)),
      crtc_mode_fixup = (\<lambda>_ m a. (True, case a of None \<Rightarrow> m | Some x \<Rightarrow> x)),
      crtc_has_mode_set_base = (\<lambda>_. True),
      output_set_property = (\<lambda>_. Some (\<lambda>_ _. 0)),
      output_detect = (\<lambda>_. output_status_connected),
      output_get_modes = (\<lambda>_. ([], 0)),
      output_mode_valid = (\<lambda>_ _. MODE_OK)\<rparr>"

text \<open>The same driver for outputs whose \<^verbatim>\<open>set_property\<close> is \<^verbatim>\<open>NULL\<close>.\<close>

definition no_property_driver :: drm_driver where
  "no_property_driver = accept_driver\<lparr>output_set_property := (\<lambda>_. None)\<rparr>"

text \<open>The DPMS property and a margin property, as lines 752-756 and 796-800 create them.\<close>

definition dpms_property :: drm_property where
  "dpms_property =
     \<lparr>prop_id = 2, prop_flags = 8, prop_name = ''DPMS'', prop_values = [0, 1, 2, 3],
      enum_blob_list =
        [\<lparr>enum_value = 0, enum_name = ''On''\<rparr>, \<lparr>enum_value = 1, enum_name = ''Standby''\<rparr>,
         \<lparr>enum_value = 2, enum_name = ''Suspend''\<rparr>, \<lparr>enum_value = 3, enum_name = ''Off''\<rparr>]\<rparr>"

definition margin_property :: drm_property where
  "margin_property =
     \<lparr>prop_id = 3, prop_flags = 2, prop_name = ''right margin'',
      prop_values = [0, 100], enum_blob_list = []\<rparr>"

text \<open>
  A device with one output (at address 10, identifier 1) that has both properties attached
  (at addresses 20 and 21).
\<close>

definition prop_device :: drm_device where
  "prop_device = empty_device
     \<lparr>crtc_idr := [(3, 21), (2, 20), (1, 10)], output_list := [10],
      outputs := (\<lambda>_. zero_output)
        (10 := zero_output\<lparr>output_id := 1, property_ids := [2, 3] @ replicate 14 0\<rparr>),
      properties := (\<lambda>_. zero_property)(20 := dpms_property, 21 := margin_property)\<rparr>"

text \<open>A device with two CRTCs (at 1 and 2) and a framebuffer (at 30) bound to the first.\<close>

definition fb_device :: drm_device where
  "fb_device = empty_device
     \<lparr>crtc_idr := [(3, 30), (2, 2), (1, 1)], fb_list := [30], crtc_list := [1, 2], num_fb := 1,
      fbs := (\<lambda>_. zero_fb)(30 := zero_fb\<lparr>fb_id := 3\<rparr>),
      crtcs := (\<lambda>_. zero_crtc)(1 := zero_crtc\<lparr>crtc_id := 1, crtc_fb := Some 30\<rparr>,
                              2 := zero_crtc\<lparr>crtc_id := 2\<rparr>)\<rparr>"

text \<open>
  A device with one CRTC (at 1), enabled, and two outputs: the first (at 10) is bound to the
  CRTC, the second (at 11) is not. A driver whose outputs reject every mode, and one whose
  CRTCs do. A request that moves the CRTC from the first output to the second with the
  640x480 mode.
\<close>

definition mode_device :: drm_device where
  "mode_device = empty_device
     \<lparr>crtc_idr := [(3, 11), (2, 10), (1, 1)], crtc_list := [1], output_list := [10, 11],
      crtcs := (\<lambda>_. zero_crtc)(1 := zero_crtc\<lparr>crtc_id := 1, crtc_enabled := True\<rparr>),
      outputs := (\<lambda>_. zero_output)
        (10 := zero_output\<lparr>output_id := 2, output_crtc := Some 1\<rparr>,
         11 := zero_output\<lparr>output_id := 3\<rparr>)\<rparr>"

definition reject_driver :: drm_driver where
  "reject_driver = accept_driver\<lparr>output_mode_fixup := (\<lambda>_ m a. (False, m))\<rparr>"

definition crtc_reject_driver :: drm_driver where
  "crtc_reject_driver = accept_driver\<lparr>crtc_mode_fixup := (\<lambda>_ m a. (False, m))\<rparr>"

definition move_request :: drm_mode_set where
  "move_request =
     \<lparr>set_fb = None, set_crtc = Some 1, set_mode = Some (std_mode drm_h),
      set_x = 0, set_y = 0, set_outputs = [11]\<rparr>"

text \<open>
  A device whose enabled flags are stale: the first CRTC (at 1) is disabled and has an
  output (at 10) bound to it, the second (at 2) is enabled and has none.
\<close>

definition stale_device :: drm_device where
  "stale_device = empty_device
     \<lparr>crtc_idr := [(3, 10), (2, 2), (1, 1)], crtc_list := [1, 2], output_list := [10],
      crtcs := (\<lambda>_. zero_crtc)(1 := zero_crtc\<lparr>crtc_id := 1\<rparr>,
                              2 := zero_crtc\<lparr>crtc_id := 2, crtc_enabled := True\<rparr>),
      outputs := (\<lambda>_. zero_output)
        (10 := zero_output\<lparr>output_id := 3, output_crtc := Some 1\<rparr>)\<rparr>"





text \<open>A device with one output that has no mode.\<close>

definition probe_device :: drm_device where
  "probe_device = empty_device
     \<lparr>crtc_idr := [(1, 10)], output_list := [10],
      outputs := (\<lambda>_. zero_output)(10 := zero_output\<lparr>output_id := 1\<rparr>)\<rparr>"

section \<open>Properties\<close>

subsection \<open>The identifier registry\<close>

lemma idr_next_free_Some:
  "idr_next_free live i n = Some j \<Longrightarrow> i \<le> j \<and> j \<notin> set live"
proof (induction n arbitrary: i)
  case 0
  then show ?case by (simp split: if_splits)
next
  case (Suc n)
  show ?case
  proof (cases "i \<in> set live")
    case True
    with Suc.prems have "idr_next_free live (Suc i) n = Some j" by simp
    from Suc.IH[OF this] show ?thesis by simp
  next
    case False
    with Suc.prems show ?thesis by simp
  qed
qed

lemma idr_get_new_above_Inr:
  assumes "idr_get_new_above t p start = Inr (i, t')"
  shows "start \<le> i \<and> i \<le> MAX_ID \<and> i \<notin> fst ` set t \<and> t' = (i, p) # t"
proof -
  from assms obtain j where j: "idr_next_free (map fst t) start (length t) = Some j"
    by (auto simp: idr_get_new_above_def split: option.splits)
  with assms have "\<not> MAX_ID < j" and "i = j" and "t' = (j, p) # t"
    by (auto simp: idr_get_new_above_def split: if_splits)
  with idr_next_free_Some[OF j] show ?thesis by auto
qed

lemma drm_idr_get_cases:
  assumes "drm_idr_get dev pre p = (i, dev')"
  shows "(i = 0 \<and> dev' = dev) \<or>
         (1 \<le> i \<and> i \<le> MAX_ID \<and> i \<notin> live_ids dev \<and>
          dev' = dev\<lparr>crtc_idr := (i, p) # crtc_idr dev\<rparr>)"
proof (cases "pre")
  case False
  with assms show ?thesis by (simp add: drm_idr_get_def)
next
  case True
  show ?thesis
  proof (cases "idr_get_new_above (crtc_idr dev) p 1")
    case (Inl e)
    with True assms show ?thesis by (simp add: drm_idr_get_def)
  next
    case (Inr r)
    obtain j t where r: "r = (j, t)" by (cases r)
    from idr_get_new_above_Inr[OF Inr[unfolded r]] True assms Inr r
    show ?thesis by (auto simp: drm_idr_get_def live_ids_def)
  qed
qed

lemma idr_find_remove: "idr_find (idr_remove t i) i = None"
  by (induction t) (auto simp: idr_find_def idr_remove_def)

lemma idr_step_distinct:
  assumes "distinct (map fst (crtc_idr dev))"
  shows "distinct (map fst (crtc_idr (idr_step dev a)))"
proof (cases a)
  case (Allocate pre p)
  obtain i dev' where g: "drm_idr_get dev pre p = (i, dev')"
    by (cases "drm_idr_get dev pre p")
  from drm_idr_get_cases[OF g] assms Allocate g show ?thesis
    by (auto simp: live_ids_def)
next
  case (Release i)
  with assms show ?thesis
    by (simp add: drm_idr_put_def idr_remove_def distinct_map_filter)
qed

lemma idr_run_distinct:
  "distinct (map fst (crtc_idr dev)) \<Longrightarrow> distinct (map fst (crtc_idr (idr_run dev ops)))"
  unfolding idr_run_def
  by (induction ops arbitrary: dev) (simp_all add: idr_step_distinct)

text \<open>
  Claim C7. After any sequence of allocations and releases on the registry of a device that
  started empty, no identifier is live twice; an allocation that succeeds (it returns an
  identifier other than the 0 of a failure) returns an identifier that is at least 1 and was
  not live, and registers the pointer under it; an allocation that fails changes nothing;
  and an identifier that has just been released resolves to nothing and is not live.
\<close>

theorem drm_idr_registry:
  assumes "crtc_idr dev0 = []" and "dev = idr_run dev0 ops"
  shows "distinct (map fst (crtc_idr dev)) \<and>
         (\<forall>pre p i dev'. drm_idr_get dev pre p = (i, dev') \<and> i \<noteq> 0 \<longrightarrow>
            1 \<le> i \<and> i \<notin> live_ids dev \<and> idr_find (crtc_idr dev) i = None \<and>
            idr_find (crtc_idr dev') i = Some p \<and> live_ids dev' = insert i (live_ids dev)) \<and>
         (\<forall>pre p dev'. drm_idr_get dev pre p = (0, dev') \<longrightarrow> dev' = dev) \<and>
         (\<forall>j. idr_find (crtc_idr (drm_idr_put dev j)) j = None \<and>
              j \<notin> live_ids (drm_idr_put dev j))"
proof -
  have d: "distinct (map fst (crtc_idr dev))"
    using assms idr_run_distinct[of dev0 ops] by simp
  have "idr_find (crtc_idr (drm_idr_put dev j)) j = None" for j
    by (simp add: drm_idr_put_def idr_find_remove)
  moreover have "j \<notin> live_ids (drm_idr_put dev j)" for j
    by (auto simp: drm_idr_put_def live_ids_def idr_remove_def)
  ultimately have put: "idr_find (crtc_idr (drm_idr_put dev j)) j = None \<and>
             j \<notin> live_ids (drm_idr_put dev j)" for j
    by simp
  have fail: "dev' = dev" if "drm_idr_get dev pre p = (0, dev')" for pre p dev'
    using drm_idr_get_cases[OF that] by simp
  have ok: "1 \<le> i \<and> i \<notin> live_ids dev \<and> idr_find (crtc_idr dev) i = None \<and>
        idr_find (crtc_idr dev') i = Some p \<and> live_ids dev' = insert i (live_ids dev)"
    if g: "drm_idr_get dev pre p = (i, dev')" and nz: "i \<noteq> 0" for pre p i dev'
  proof -
    from drm_idr_get_cases[OF g] nz
    have *: "1 \<le> i" "i \<notin> live_ids dev" "dev' = dev\<lparr>crtc_idr := (i, p) # crtc_idr dev\<rparr>"
      by auto
    from *(2) have "idr_find (crtc_idr dev) i = None"
      by (simp add: live_ids_def idr_find_def map_of_eq_None_iff)
    with * show ?thesis by (simp add: idr_find_def live_ids_def)
  qed
  from d put fail ok show ?thesis by blast
qed

text \<open>
  The theorem at a registry that has seen two allocations and the release of identifier 1:
  the next allocation returns 1 again, which was not live, and identifier 2, once released,
  resolves to nothing.
\<close>

theorem drm_idr_registry_witness:
  "crtc_idr empty_device = [] \<and>
   live_ids (idr_run empty_device [Allocate True 100, Allocate True 101, Release 1]) = {2} \<and>
   fst (drm_idr_get (idr_run empty_device [Allocate True 100, Allocate True 101, Release 1])
          True 102) = 1 \<and>
   idr_find (crtc_idr (drm_idr_put
      (idr_run empty_device [Allocate True 100, Allocate True 101, Release 1]) 2)) 2 = None"
proof -
  define dev where "dev = idr_run empty_device [Allocate True 100, Allocate True 101, Release 1]"
  have h: "crtc_idr empty_device = []" by (simp add: empty_device_def)
  have r: "crtc_idr dev = [(2, 101)]"
    by (simp add: dev_def idr_run_def empty_device_def drm_idr_get_def idr_get_new_above_def
        drm_idr_put_def idr_remove_def MAX_ID_def)
  have g: "fst (drm_idr_get dev True 102) = 1"
    by (simp add: r drm_idr_get_def idr_get_new_above_def MAX_ID_def)
  from drm_idr_registry[OF h dev_def]
  have "idr_find (crtc_idr (drm_idr_put dev 2)) 2 = None"
    by blast
  with h r g show ?thesis unfolding dev_def[symmetric] by (simp add: live_ids_def)
qed

subsection \<open>Enum entries of a property\<close>

lemma enum_rename_Some:
  "v \<in> enum_value ` set es \<Longrightarrow>
     \<exists>k<length es. enum_value (es ! k) = v \<and> (\<forall>j<k. enum_value (es ! j) \<noteq> v) \<and>
        enum_rename es v n = Some (es[k := (es ! k)\<lparr>enum_name := n\<rparr>])"
proof (induction es)
  case Nil
  then show ?case by simp
next
  case (Cons e es)
  show ?case
  proof (cases "enum_value e = v")
    case True
    then have "enum_value ((e # es) ! 0) = v \<and> (\<forall>j<0. enum_value ((e # es) ! j) \<noteq> v) \<and>
        enum_rename (e # es) v n = Some ((e # es)[0 := ((e # es) ! 0)\<lparr>enum_name := n\<rparr>])"
      by simp
    then show ?thesis by (intro exI[of _ 0]) simp
  next
    case False
    with Cons.prems have "v \<in> enum_value ` set es" by auto
    from Cons.IH[OF this] obtain k where k: "k < length es" "enum_value (es ! k) = v"
      "\<forall>j<k. enum_value (es ! j) \<noteq> v"
      "enum_rename es v n = Some (es[k := (es ! k)\<lparr>enum_name := n\<rparr>])"
      by blast
    have "\<forall>j<Suc k. enum_value ((e # es) ! j) \<noteq> v"
      using False k(3) by (auto simp: less_Suc_eq_0_disj)
    with k False show ?thesis by (intro exI[of _ "Suc k"]) simp
  qed
qed

lemma enum_rename_keeps_values:
  "k < length es \<Longrightarrow>
     map enum_value (es[k := (es ! k)\<lparr>enum_name := n\<rparr>]) = map enum_value es"
  by (simp add: map_update list_update_same_conv)

text \<open>
  Claim C8. When the property is enum-flagged and \<open>v\<close> is the value of one of its entries,
  \<^verbatim>\<open>drm_property_add_enum\<close> with \<open>v\<close> and a name returns 0, for every index and whether or
  not memory is available; the property it leaves differs from the one it was given only in
  the name of the first entry whose value is \<open>v\<close>, which is the new name cut to the size
  of the field. So the number of entries, their values, in order, and the values array are
  unchanged.
\<close>

theorem add_enum_existing_value:
  assumes "prop_flags property AND DRM_MODE_PROP_ENUM H \<noteq> 0"
    and "v \<in> enum_value ` set (enum_blob_list property)"
  shows "\<exists>k property'.
           drm_property_add_enum H alloc property index v name = Some (0, property') \<and>
           k < length (enum_blob_list property) \<and>
           enum_value (enum_blob_list property ! k) = v \<and>
           (\<forall>j<k. enum_value (enum_blob_list property ! j) \<noteq> v) \<and>
           property' = property\<lparr>enum_blob_list := (enum_blob_list property)
                         [k := (enum_blob_list property ! k)
                                 \<lparr>enum_name := c_name (DRM_PROP_NAME_LEN H) name\<rparr>]\<rparr> \<and>
           length (enum_blob_list property') = length (enum_blob_list property) \<and>
           map enum_value (enum_blob_list property') =
             map enum_value (enum_blob_list property) \<and>
           prop_values property' = prop_values property"
proof -
  from enum_rename_Some[OF assms(2), of "c_name (DRM_PROP_NAME_LEN H) name"]
  obtain k where k: "k < length (enum_blob_list property)"
    "enum_value (enum_blob_list property ! k) = v"
    "\<forall>j<k. enum_value (enum_blob_list property ! j) \<noteq> v"
    "enum_rename (enum_blob_list property) v (c_name (DRM_PROP_NAME_LEN H) name) =
       Some ((enum_blob_list property)[k := (enum_blob_list property ! k)
                \<lparr>enum_name := c_name (DRM_PROP_NAME_LEN H) name\<rparr>])"
    by blast
  from k(4) assms(1) have "drm_property_add_enum H alloc property index v name =
             Some (0, property\<lparr>enum_blob_list := (enum_blob_list property)
                        [k := (enum_blob_list property ! k)
                                \<lparr>enum_name := c_name (DRM_PROP_NAME_LEN H) name\<rparr>]\<rparr>)"
    by (simp add: drm_property_add_enum_def)
  with k(1,2,3) enum_rename_keeps_values[OF k(1)] show ?thesis
    by (intro exI[of _ k] exI[of _ "property\<lparr>enum_blob_list := (enum_blob_list property)
                        [k := (enum_blob_list property ! k)
                                \<lparr>enum_name := c_name (DRM_PROP_NAME_LEN H) name\<rparr>]\<rparr>"]) simp
qed

text \<open>The theorem at the DPMS property: value 1 is registered again, as "Doze".\<close>

theorem add_enum_existing_value_witness:
  "prop_flags dpms_property AND DRM_MODE_PROP_ENUM drm_h \<noteq> 0 \<and>
   1 \<in> enum_value ` set (enum_blob_list dpms_property) \<and>
   drm_property_add_enum drm_h True dpms_property 7 1 ''Doze'' =
     Some (0, dpms_property\<lparr>enum_blob_list :=
       [\<lparr>enum_value = 0, enum_name = ''On''\<rparr>, \<lparr>enum_value = 1, enum_name = ''Doze''\<rparr>,
        \<lparr>enum_value = 2, enum_name = ''Suspend''\<rparr>, \<lparr>enum_value = 3, enum_name = ''Off''\<rparr>]\<rparr>)"
proof -
  have h1: "prop_flags dpms_property AND DRM_MODE_PROP_ENUM drm_h \<noteq> 0"
    by (simp add: dpms_property_def drm_h_def)
  have h2: "1 \<in> enum_value ` set (enum_blob_list dpms_property)"
    by (simp add: dpms_property_def)
  from add_enum_existing_value[OF h1 h2, of True 7 "''Doze''"] h1 h2
  show ?thesis
    by (auto simp: dpms_property_def drm_h_def c_name_def less_Suc_eq_0_disj numeral_eq_Suc
        nth_Cons')
qed

text \<open>
  Claim C10. When the property is not enum-flagged, \<^verbatim>\<open>drm_property_add_enum\<close> returns
  the error \<^verbatim>\<open>-EINVAL\<close> for every index, value and name, and leaves the property as it
  was: its entries and its values array are unchanged.
\<close>

theorem add_enum_not_enum:
  assumes "prop_flags property AND DRM_MODE_PROP_ENUM H = 0"
  shows "\<exists>property'.
           drm_property_add_enum H alloc property index v name = Some (- EINVAL, property') \<and>
           - EINVAL < 0 \<and> property' = property \<and>
           enum_blob_list property' = enum_blob_list property \<and>
           prop_values property' = prop_values property"
  using assms by (simp add: drm_property_add_enum_def EINVAL_def)

text \<open>The theorem at a range property.\<close>

theorem add_enum_not_enum_witness:
  "prop_flags margin_property AND DRM_MODE_PROP_ENUM drm_h = 0 \<and>
   drm_property_add_enum drm_h True margin_property 0 5 ''five'' = Some (- 22, margin_property)"
proof -
  have h: "prop_flags margin_property AND DRM_MODE_PROP_ENUM drm_h = 0"
    by (simp add: margin_property_def drm_h_def)
  from add_enum_not_enum[OF h, of True 0 5 "''five''"] h show ?thesis
    by (simp add: EINVAL_def)
qed

subsection \<open>Destroying a framebuffer\<close>

lemma fb_remove_fold_crtcs:
  "crtcs (foldl (\<lambda>d crtc. if crtc_fb (crtcs d crtc) = Some fb
                      then crtc_upd d crtc (\<lambda>c. c\<lparr>crtc_fb := None\<rparr>) else d) dev cs) c =
   (if c \<in> set cs \<and> crtc_fb (crtcs dev c) = Some fb
    then (crtcs dev c)\<lparr>crtc_fb := None\<rparr> else crtcs dev c)"
  by (induction cs arbitrary: dev) (auto simp: crtc_upd_def)

lemma fb_remove_fold_frame:
  "fb_list (foldl (\<lambda>d crtc. if crtc_fb (crtcs d crtc) = Some fb
                      then crtc_upd d crtc (\<lambda>c. c\<lparr>crtc_fb := None\<rparr>) else d) dev cs)
     = fb_list dev \<and>
   crtc_list (foldl (\<lambda>d crtc. if crtc_fb (crtcs d crtc) = Some fb
                      then crtc_upd d crtc (\<lambda>c. c\<lparr>crtc_fb := None\<rparr>) else d) dev cs)
     = crtc_list dev \<and>
   crtc_idr (foldl (\<lambda>d crtc. if crtc_fb (crtcs d crtc) = Some fb
                      then crtc_upd d crtc (\<lambda>c. c\<lparr>crtc_fb := None\<rparr>) else d) dev cs)
     = crtc_idr dev \<and>
   fbs (foldl (\<lambda>d crtc. if crtc_fb (crtcs d crtc) = Some fb
                      then crtc_upd d crtc (\<lambda>c. c\<lparr>crtc_fb := None\<rparr>) else d) dev cs)
     = fbs dev"
  by (induction cs arbitrary: dev) (auto simp: crtc_upd_def)

lemma fb_remove_from_crtcs_crtcs:
  "crtcs (fb_remove_from_crtcs dev fb) c =
   (if c \<in> set (crtc_list dev) \<and> crtc_fb (crtcs dev c) = Some fb
    then (crtcs dev c)\<lparr>crtc_fb := None\<rparr> else crtcs dev c)"
  unfolding fb_remove_from_crtcs_def by (rule fb_remove_fold_crtcs)

lemma fb_remove_from_crtcs_frame:
  "fb_list (fb_remove_from_crtcs dev fb) = fb_list dev"
  "crtc_list (fb_remove_from_crtcs dev fb) = crtc_list dev"
  "crtc_idr (fb_remove_from_crtcs dev fb) = crtc_idr dev"
  "fbs (fb_remove_from_crtcs dev fb) = fbs dev"
  unfolding fb_remove_from_crtcs_def using fb_remove_fold_frame[of fb dev "crtc_list dev"]
  by simp_all

text \<open>
  Claim C9. In \<^verbatim>\<open>drm_framebuffer_destroy\<close>, the state after the loop over the CRTCs has no
  CRTC of the list that references the framebuffer, while the framebuffer is still in the
  store and the registry is as it was; the rest of the function leaves the CRTCs as the
  loop left them, takes the framebuffer out of the store and releases its identifier. So
  when every CRTC's framebuffer reference, where set, is in the store before the call, the
  same holds after it.
\<close>

theorem framebuffer_destroy_clears_crtcs:
  "(\<forall>c\<in>set (crtc_list dev). crtc_fb (crtcs (fb_remove_from_crtcs dev fb) c) \<noteq> Some fb) \<and>
   fb_list (fb_remove_from_crtcs dev fb) = fb_list dev \<and>
   crtc_idr (fb_remove_from_crtcs dev fb) = crtc_idr dev \<and>
   crtcs (drm_framebuffer_destroy dev fb) = crtcs (fb_remove_from_crtcs dev fb) \<and>
   crtc_list (drm_framebuffer_destroy dev fb) = crtc_list dev \<and>
   fb \<notin> set (fb_list (drm_framebuffer_destroy dev fb)) \<and>
   idr_find (crtc_idr (drm_framebuffer_destroy dev fb)) (fb_id (fbs dev fb)) = None \<and>
   (crtc_fbs_live dev \<longrightarrow> crtc_fbs_live (drm_framebuffer_destroy dev fb))"
proof -
  have "crtc_fbs_live (drm_framebuffer_destroy dev fb)" if "crtc_fbs_live dev"
    using that
    by (auto simp: crtc_fbs_live_def drm_framebuffer_destroy_def fb_remove_from_crtcs_crtcs
        fb_remove_from_crtcs_frame drm_idr_put_def Let_def list_all_iff split: option.splits)
  moreover
  have "idr_find (crtc_idr (drm_framebuffer_destroy dev fb)) (fb_id (fbs dev fb)) = None"
    by (simp add: drm_framebuffer_destroy_def fb_remove_from_crtcs_frame drm_idr_put_def
        Let_def idr_find_remove)
  ultimately show ?thesis
    by (simp add: drm_framebuffer_destroy_def fb_remove_from_crtcs_crtcs
        fb_remove_from_crtcs_frame drm_idr_put_def Let_def)
qed

text \<open>
  The theorem at a device whose first CRTC scans out the framebuffer that is destroyed.
\<close>

theorem framebuffer_destroy_clears_crtcs_witness:
  "crtc_fbs_live fb_device \<and> crtc_fb (crtcs fb_device 1) = Some 30 \<and>
   crtc_fb (crtcs (drm_framebuffer_destroy fb_device 30) 1) = None \<and>
   fb_list (drm_framebuffer_destroy fb_device 30) = [] \<and>
   crtc_fbs_live (drm_framebuffer_destroy fb_device 30)"
proof -
  have h: "crtc_fbs_live fb_device"
    by (simp add: crtc_fbs_live_def fb_device_def empty_device_def zero_crtc_def)
  have "crtc_fb (crtcs (drm_framebuffer_destroy fb_device 30) 1) = None \<and>
        fb_list (drm_framebuffer_destroy fb_device 30) = []"
    by (simp add: drm_framebuffer_destroy_def fb_remove_from_crtcs_def fb_device_def
        empty_device_def zero_crtc_def zero_fb_def crtc_upd_def drm_idr_put_def Let_def)
  moreover have "crtc_fb (crtcs fb_device 1) = Some 30"
    by (simp add: fb_device_def empty_device_def)
  ultimately show ?thesis
    using framebuffer_destroy_clears_crtcs[of fb_device 30] h by simp
qed

subsection \<open>Setting a property of an output\<close>

text \<open>
  Claim C2, as the code has it. For a request that names an output of the registry, a
  property attached to it and registered (a range property having its two bounds),
  \<^verbatim>\<open>drm_mode_output_property_set_ioctl\<close> returns \<^verbatim>\<open>-EINVAL\<close> without a call into the
  driver when the property is immutable-flagged, or is range-flagged and the value is
  outside \<^verbatim>\<open>[values[0], values[1]]\<close>, or is not range-flagged (a discrete property) and
  the value is none of the stored values. Otherwise, when the output has a
  \<^verbatim>\<open>set_property\<close> callback, it calls it once and returns its result unchanged; when the
  output has none, it returns \<^verbatim>\<open>-EINVAL\<close> without any call.
\<close>

theorem property_set_ioctl_checks:
  assumes "idr_find (crtc_idr dev) (sp_output_id req) = Some out"
    and "output_id (outputs dev out) = sp_output_id req"
    and "sp_prop_id req \<in> set (property_ids (outputs dev out))"
    and "idr_find (crtc_idr dev) (sp_prop_id req) = Some p"
    and "prop_id (properties dev p) = sp_prop_id req"
    and "prop_flags (properties dev p) AND DRM_MODE_PROP_RANGE H \<noteq> 0 \<longrightarrow>
           2 \<le> length (prop_values (properties dev p))"
  shows "drm_mode_output_property_set_ioctl drv H dev req =
     (if prop_flags (properties dev p) AND DRM_MODE_PROP_IMMUTABLE H \<noteq> 0 \<or>
         (prop_flags (properties dev p) AND DRM_MODE_PROP_RANGE H \<noteq> 0 \<and>
            (sp_value req < prop_values (properties dev p) ! 0 \<or>
             prop_values (properties dev p) ! 1 < sp_value req)) \<or>
         (prop_flags (properties dev p) AND DRM_MODE_PROP_RANGE H = 0 \<and>
            sp_value req \<notin> set (prop_values (properties dev p)))
      then Some (- EINVAL, [])
      else (case output_set_property drv out of
              None \<Rightarrow> Some (- EINVAL, [])
            | Some f \<Rightarrow> Some (f p (sp_value req), [Output_set_property out p (sp_value req)])))"
  using assms
  by (auto simp: drm_mode_output_property_set_ioctl_def call_set_property_def Let_def
      split: option.splits)

text \<open>
  The theorem at the scenario of the specification: the margin property has the range
  \<open>[0, 100]\<close>, and the value 150 is refused without a call of \<^verbatim>\<open>set_property\<close>.
\<close>

theorem property_set_ioctl_checks_witness:
  "idr_find (crtc_idr prop_device) 1 = Some 10 \<and>
   output_id (outputs prop_device 10) = 1 \<and>
   3 \<in> set (property_ids (outputs prop_device 10)) \<and>
   idr_find (crtc_idr prop_device) 3 = Some 21 \<and>
   prop_id (properties prop_device 21) = 3 \<and>
   2 \<le> length (prop_values (properties prop_device 21)) \<and>
   drm_mode_output_property_set_ioctl accept_driver drm_h prop_device
     \<lparr>sp_value = 150, sp_prop_id = 3, sp_output_id = 1\<rparr> = Some (- 22, [])"
proof -
  have h: "idr_find (crtc_idr prop_device) 1 = Some 10"
    "output_id (outputs prop_device 10) = 1"
    "3 \<in> set (property_ids (outputs prop_device 10))"
    "idr_find (crtc_idr prop_device) 3 = Some 21"
    "prop_id (properties prop_device 21) = 3"
    "2 \<le> length (prop_values (properties prop_device 21))"
    by (simp_all add: prop_device_def empty_device_def idr_find_def zero_output_def
        margin_property_def)
  have v: "prop_flags (properties prop_device 21) = 2"
    "prop_values (properties prop_device 21) = [0, 100]"
    by (simp_all add: prop_device_def empty_device_def margin_property_def)
  from property_set_ioctl_checks[of prop_device
      "\<lparr>sp_value = 150, sp_prop_id = 3, sp_output_id = 1\<rparr>" 10 21 drm_h accept_driver] h
  have "drm_mode_output_property_set_ioctl accept_driver drm_h prop_device
     \<lparr>sp_value = 150, sp_prop_id = 3, sp_output_id = 1\<rparr> = Some (- 22, [])"
    by (simp add: v drm_h_def EINVAL_def)
  with h show ?thesis by simp
qed

text \<open>
  Claim C2 as stated fails where the output has no \<^verbatim>\<open>set_property\<close> callback, which
  line 2524 tests: the DPMS property is neither immutable nor a range property, the value 1
  is one of its values, and the call returns \<^verbatim>\<open>-EINVAL\<close> without a call into the driver.
\<close>

theorem property_set_ioctl_without_callback:
  "prop_flags (properties prop_device 20) AND DRM_MODE_PROP_IMMUTABLE drm_h = 0 \<and>
   prop_flags (properties prop_device 20) AND DRM_MODE_PROP_RANGE drm_h = 0 \<and>
   prop_flags (properties prop_device 20) AND DRM_MODE_PROP_ENUM drm_h \<noteq> 0 \<and>
   1 \<in> set (prop_values (properties prop_device 20)) \<and>
   output_set_property no_property_driver 10 = None \<and>
   drm_mode_output_property_set_ioctl no_property_driver drm_h prop_device
     \<lparr>sp_value = 1, sp_prop_id = 2, sp_output_id = 1\<rparr> = Some (- 22, [])"
  by (simp add: drm_mode_output_property_set_ioctl_def call_set_property_def
      no_property_driver_def accept_driver_def prop_device_def empty_device_def idr_find_def
      zero_output_def dpms_property_def drm_h_def EINVAL_def)

subsection \<open>The mode-apply protocol\<close>

lemma drm_mode_duplicate_frame:
  assumes "drm_mode_duplicate dev kz pre m = (a, dev0)"
  shows "outputs dev0 = outputs dev \<and> crtcs dev0 = crtcs dev \<and>
         output_list dev0 = output_list dev \<and> crtc_list dev0 = crtc_list dev \<and>
         fb_list dev0 = fb_list dev \<and> fbs dev0 = fbs dev"
proof (cases kz)
  case None
  with assms show ?thesis by (simp add: drm_mode_duplicate_def drm_mode_create_def)
next
  case (Some nmode)
  obtain i d where g: "drm_idr_get dev pre nmode = (i, d)" by (cases "drm_idr_get dev pre nmode")
  from drm_idr_get_cases[OF g] have "d = dev \<or> d = dev\<lparr>crtc_idr := (i, nmode) # crtc_idr dev\<rparr>"
    by blast
  moreover from assms Some g have "dev0 = d"
    by (simp add: drm_mode_duplicate_def drm_mode_create_def)
  ultimately show ?thesis by auto
qed

lemma fixup_outputs_events:
  "fixup_outputs drv m adj outs = (r, a, es) \<Longrightarrow>
     (\<forall>e\<in>set es. \<not> apply_call e) \<and> (r \<longleftrightarrow> \<not> (\<exists>e\<in>set es. rejected_fixup e))"
proof (induction outs arbitrary: adj r a es)
  case Nil
  then show ?case by simp
next
  case (Cons out outs)
  obtain ok adj' where c: "call_fixup (output_mode_fixup drv out) m adj = (ok, adj')"
    by (cases "call_fixup (output_mode_fixup drv out) m adj")
  show ?case
  proof (cases ok)
    case False
    with Cons.prems c show ?thesis by auto
  next
    case True
    obtain r' a' es' where f: "fixup_outputs drv m adj' outs = (r', a', es')"
      by (cases "fixup_outputs drv m adj' outs")
    from Cons.IH[OF f] Cons.prems c True f show ?thesis by auto
  qed
qed

lemma drm_crtc_in_use_iff:
  "drm_crtc_in_use dev crtc \<longleftrightarrow>
     (\<exists>out\<in>set (output_list dev). output_crtc (outputs dev out) = Some crtc)"
  by (simp add: drm_crtc_in_use_def list_ex_iff)

lemma mode_set_events_no_rejection:
  "e \<in> set (mode_set_events crtc outs m adj x y) \<Longrightarrow> \<not> rejected_fixup e"
  by (auto simp: mode_set_events_def)

text \<open>What a run of \<^verbatim>\<open>drm_crtc_set_mode\<close> that returns leaves behind.\<close>

lemma drm_crtc_set_mode_outcome:
  assumes "drm_crtc_set_mode drv dev kz pre crtc m x y = Some (ret, dev', es)"
  shows "outputs dev' = outputs dev \<and> output_list dev' = output_list dev \<and>
         crtc_list dev' = crtc_list dev \<and>
         (\<forall>c. c \<noteq> crtc \<longrightarrow> crtcs dev' c = crtcs dev c) \<and>
         crtc_enabled (crtcs dev' crtc) = drm_crtc_in_use dev crtc \<and>
         crtc_fb (crtcs dev' crtc) = crtc_fb (crtcs dev crtc) \<and>
         (\<not> drm_crtc_in_use dev crtc \<longrightarrow> ret \<and> es = [] \<and>
            crtc_mode (crtcs dev' crtc) = crtc_mode (crtcs dev crtc) \<and>
            crtc_x (crtcs dev' crtc) = crtc_x (crtcs dev crtc) \<and>
            crtc_y (crtcs dev' crtc) = crtc_y (crtcs dev crtc)) \<and>
         (ret \<longleftrightarrow> \<not> (\<exists>e\<in>set es. rejected_fixup e)) \<and>
         (\<not> ret \<longrightarrow> (\<forall>e\<in>set es. \<not> apply_call e) \<and>
            crtc_mode (crtcs dev' crtc) = crtc_mode (crtcs dev crtc) \<and>
            crtc_x (crtcs dev' crtc) = crtc_x (crtcs dev crtc) \<and>
            crtc_y (crtcs dev' crtc) = crtc_y (crtcs dev crtc))"
proof -
  obtain adj0 dev0 where d: "drm_mode_duplicate dev kz pre m = (adj0, dev0)"
    by (cases "drm_mode_duplicate dev kz pre m")
  note fr = drm_mode_duplicate_frame[OF d]
  have iu: "drm_crtc_in_use dev0 crtc = drm_crtc_in_use dev crtc"
    using fr by (simp add: drm_crtc_in_use_def)
  show ?thesis
  proof (cases "drm_crtc_in_use dev crtc")
    case False
    with assms d iu fr show ?thesis
      by (auto simp: drm_crtc_set_mode_def crtc_upd_def)
  next
    case True
    define dev1 where "dev1 = crtc_upd dev0 crtc (\<lambda>c. c\<lparr>crtc_enabled := True\<rparr>)"
    define dev2 where "dev2 = crtc_upd dev1 crtc (\<lambda>c. c\<lparr>crtc_mode := m, crtc_x := x, crtc_y := y\<rparr>)"
    define restored where "restored = crtc_upd dev2 crtc
                  (\<lambda>c. c\<lparr>crtc_mode := crtc_mode (crtcs dev1 crtc), crtc_x := crtc_x (crtcs dev1 crtc),
                     crtc_y := crtc_y (crtcs dev1 crtc)\<rparr>)"
    define outs where "outs = crtc_outputs dev2 crtc"
    obtain r1 adj1 es1 where f: "fixup_outputs drv m adj0 outs = (r1, adj1, es1)"
      by (cases "fixup_outputs drv m adj0 outs")
    note fe = fixup_outputs_events[OF f]
    obtain r2 adj2 where c: "call_fixup (crtc_mode_fixup drv crtc) m adj1 = (r2, adj2)"
      by (cases "call_fixup (crtc_mode_fixup drv crtc) m adj1")
    have e1: "crtc_upd dev0 crtc (\<lambda>c. c\<lparr>crtc_enabled := drm_crtc_in_use dev0 crtc\<rparr>) = dev1"
      by (simp add: dev1_def iu True)
    have en: "crtc_enabled (crtcs dev1 crtc)"
      by (simp add: dev1_def crtc_upd_def)
    have unfolded: "drm_crtc_set_mode drv dev kz pre crtc m x y =
      (if drm_mode_equal (crtc_mode (crtcs dev1 crtc)) (crtc_mode (crtcs dev2 crtc)) \<and>
               (crtc_x (crtcs dev1 crtc) \<noteq> crtc_x (crtcs dev2 crtc) \<or>
                crtc_y (crtcs dev1 crtc) \<noteq> crtc_y (crtcs dev2 crtc))
            then (if crtc_has_mode_set_base drv crtc
                  then Some (True, dev2, [Crtc_mode_set_base crtc x y]) else None)
            else if \<not> r1 then Some (False, restored, es1)
            else if \<not> r2 then Some (False, restored, es1 @ [Crtc_mode_fixup crtc False])
            else (case adj2 of None \<Rightarrow> None
                  | Some a \<Rightarrow> Some (True, drm_mode_destroy dev2 a,
                                   es1 @ [Crtc_mode_fixup crtc True] @
                                   mode_set_events crtc outs m adj2 x y)))"
      unfolding drm_crtc_set_mode_def d prod.case Let_def e1 dev2_def[symmetric]
        restored_def[symmetric] outs_def[symmetric] f c
      using en by (cases r1; cases r2) auto
    have frame2: "outputs dev2 = outputs dev" "output_list dev2 = output_list dev"
      "crtc_list dev2 = crtc_list dev" "\<forall>c. c \<noteq> crtc \<longrightarrow> crtcs dev2 c = crtcs dev c"
      "crtc_enabled (crtcs dev2 crtc)" "crtc_fb (crtcs dev2 crtc) = crtc_fb (crtcs dev crtc)"
      using fr by (simp_all add: dev2_def dev1_def crtc_upd_def)
    have frameR: "outputs restored = outputs dev" "output_list restored = output_list dev"
      "crtc_list restored = crtc_list dev" "\<forall>c. c \<noteq> crtc \<longrightarrow> crtcs restored c = crtcs dev c"
      "crtc_enabled (crtcs restored crtc)" "crtc_fb (crtcs restored crtc) = crtc_fb (crtcs dev crtc)"
      "crtc_mode (crtcs restored crtc) = crtc_mode (crtcs dev crtc)"
      "crtc_x (crtcs restored crtc) = crtc_x (crtcs dev crtc)"
      "crtc_y (crtcs restored crtc) = crtc_y (crtcs dev crtc)"
      using fr by (simp_all add: restored_def dev2_def dev1_def crtc_upd_def)
    have frameD: "outputs (drm_mode_destroy dev2 a) = outputs dev2"
      "output_list (drm_mode_destroy dev2 a) = output_list dev2"
      "crtc_list (drm_mode_destroy dev2 a) = crtc_list dev2"
      "crtcs (drm_mode_destroy dev2 a) = crtcs dev2" for a
      by (simp_all add: drm_mode_destroy_def drm_idr_put_def)
    from assms[unfolded unfolded] True fe frame2 frameR frameD show ?thesis
      by (auto split: if_splits option.splits dest: mode_set_events_no_rejection)
  qed
qed

text \<open>
  When a run of \<^verbatim>\<open>drm_crtc_set_mode\<close> on a CRTC in use returns, with what, and when it
  ends in a fault.
\<close>

lemma call_fixup_fst: "fst (call_fixup f m adj) = fst (f m adj)"
  by (simp add: call_fixup_def split: prod.splits)

lemma call_fixup_null: "snd (call_fixup f m adj) = None \<longleftrightarrow> adj = None"
  by (simp add: call_fixup_def split: prod.splits)

lemma fixup_outputs_null:
  "fixup_outputs drv m adj outs = (r, a, es) \<Longrightarrow> a = None \<longleftrightarrow> adj = None"
proof (induction outs arbitrary: adj r a es)
  case Nil
  then show ?case by auto
next
  case (Cons out outs)
  obtain ok adj' where c: "call_fixup (output_mode_fixup drv out) m adj = (ok, adj')"
    by (cases "call_fixup (output_mode_fixup drv out) m adj")
  with call_fixup_null[of "output_mode_fixup drv out" m adj]
  have n: "adj' = None \<longleftrightarrow> adj = None" by simp
  show ?case
  proof (cases ok)
    case False
    with Cons.prems c n show ?thesis by auto
  next
    case True
    obtain r' a' es' where f: "fixup_outputs drv m adj' outs = (r', a', es')"
      by (cases "fixup_outputs drv m adj' outs")
    from Cons.IH[OF f] Cons.prems c True f n show ?thesis by auto
  qed
qed

lemma drm_mode_duplicate_null: "fst (drm_mode_duplicate dev kz pre m) = None \<longleftrightarrow> kz = None"
  by (cases kz) (simp_all add: drm_mode_duplicate_def drm_mode_create_def split: prod.splits)

lemma fixup_outputs_rejecting_output:
  assumes "out \<in> set outs" and "\<forall>adj. \<not> fst (output_mode_fixup drv out m adj)"
  shows "\<not> fst (fixup_outputs drv m adj outs)"
  using assms(1)
proof (induction outs arbitrary: adj)
  case Nil
  then show ?case by simp
next
  case (Cons a outs)
  obtain ok adj' where c: "call_fixup (output_mode_fixup drv a) m adj = (ok, adj')"
    by (cases "call_fixup (output_mode_fixup drv a) m adj")
  then have ok: "ok = fst (output_mode_fixup drv a m adj)"
    by (auto simp: call_fixup_def split: prod.splits)
  show ?case
  proof (cases ok)
    case False
    with c show ?thesis by simp
  next
    case True
    with ok assms(2) have "a \<noteq> out" by auto
    with Cons.prems have "out \<in> set outs" by simp
    from Cons.IH[OF this, of adj'] c True show ?thesis
      by (auto split: prod.splits)
  qed
qed

lemma fixups_reject_output:
  assumes "out \<in> set (crtc_outputs dev crtc)" and "\<forall>adj. \<not> fst (output_mode_fixup drv out m adj)"
  shows "fixups_reject drv dev kz pre crtc m"
  using fixup_outputs_rejecting_output[OF assms, of "fst (drm_mode_duplicate dev kz pre m)"]
  by (auto simp: fixups_reject_def split: prod.splits)

lemma fixups_reject_crtc:
  assumes "\<forall>adj. \<not> fst (crtc_mode_fixup drv crtc m adj)"
  shows "fixups_reject drv dev kz pre crtc m"
  using assms by (simp add: fixups_reject_def call_fixup_fst split: prod.splits)

text \<open>A run of drm_crtc_set_mode on a CRTC in use, by cases.\<close>

lemma drm_crtc_set_mode_in_use:
  assumes iu: "drm_crtc_in_use dev crtc"
    and f: "fixup_outputs drv m (fst (drm_mode_duplicate dev kz pre m)) (crtc_outputs dev crtc)
              = (r1, adj1, es1)"
    and c: "call_fixup (crtc_mode_fixup drv crtc) m adj1 = (r2, adj2)"
  shows "\<exists>dev2 restored. drm_crtc_set_mode drv dev kz pre crtc m x y =
     (if set_mode_repositions dev crtc m x y
      then (if crtc_has_mode_set_base drv crtc
            then Some (True, dev2, [Crtc_mode_set_base crtc x y]) else None)
      else if \<not> r1 then Some (False, restored, es1)
      else if \<not> r2 then Some (False, restored, es1 @ [Crtc_mode_fixup crtc False])
      else (case adj2 of
              None \<Rightarrow> None
            | Some a \<Rightarrow> Some (True, drm_mode_destroy dev2 a,
                              es1 @ [Crtc_mode_fixup crtc True] @
                              mode_set_events crtc (crtc_outputs dev crtc) m adj2 x y)))"
proof -
  obtain adj0 dev0 where d: "drm_mode_duplicate dev kz pre m = (adj0, dev0)"
    by (cases "drm_mode_duplicate dev kz pre m")
  note fr = drm_mode_duplicate_frame[OF d]
  have iu0: "drm_crtc_in_use dev0 crtc"
    using fr iu by (simp add: drm_crtc_in_use_def)
  define dev1 where "dev1 = crtc_upd dev0 crtc (\<lambda>c. c\<lparr>crtc_enabled := True\<rparr>)"
  define dev2 where
    "dev2 = crtc_upd dev1 crtc (\<lambda>c. c\<lparr>crtc_mode := m, crtc_x := x, crtc_y := y\<rparr>)"
  define restored where "restored = crtc_upd dev2 crtc
      (\<lambda>c. c\<lparr>crtc_mode := crtc_mode (crtcs dev1 crtc), crtc_x := crtc_x (crtcs dev1 crtc),
             crtc_y := crtc_y (crtcs dev1 crtc)\<rparr>)"
  have e1: "crtc_upd dev0 crtc (\<lambda>c. c\<lparr>crtc_enabled := drm_crtc_in_use dev0 crtc\<rparr>) = dev1"
    by (simp add: dev1_def iu0)
  have en: "crtc_enabled (crtcs dev1 crtc)"
    by (simp add: dev1_def crtc_upd_def)
  have outs: "crtc_outputs dev2 crtc = crtc_outputs dev crtc"
    using fr by (simp add: crtc_outputs_def dev2_def dev1_def crtc_upd_def)
  have f': "fixup_outputs drv m adj0 (crtc_outputs dev crtc) = (r1, adj1, es1)"
    using f d by simp
  have rep: "(drm_mode_equal (crtc_mode (crtcs dev1 crtc)) (crtc_mode (crtcs dev2 crtc)) \<and>
               (crtc_x (crtcs dev1 crtc) \<noteq> crtc_x (crtcs dev2 crtc) \<or>
                crtc_y (crtcs dev1 crtc) \<noteq> crtc_y (crtcs dev2 crtc))) =
             set_mode_repositions dev crtc m x y"
    using fr by (simp add: set_mode_repositions_def dev2_def dev1_def crtc_upd_def)
  have "drm_crtc_set_mode drv dev kz pre crtc m x y =
     (if set_mode_repositions dev crtc m x y
      then (if crtc_has_mode_set_base drv crtc
            then Some (True, dev2, [Crtc_mode_set_base crtc x y]) else None)
      else if \<not> r1 then Some (False, restored, es1)
      else if \<not> r2 then Some (False, restored, es1 @ [Crtc_mode_fixup crtc False])
      else (case adj2 of
              None \<Rightarrow> None
            | Some a \<Rightarrow> Some (True, drm_mode_destroy dev2 a,
                              es1 @ [Crtc_mode_fixup crtc True] @
                              mode_set_events crtc (crtc_outputs dev crtc) m adj2 x y)))"
    unfolding drm_crtc_set_mode_def d prod.case Let_def e1 dev2_def[symmetric]
      restored_def[symmetric] outs f' c rep
    using en by (cases r1; cases r2) auto
  then show ?thesis by blast
qed

lemma drm_crtc_set_mode_rejected:
  assumes "drm_crtc_in_use dev crtc" and "\<not> set_mode_repositions dev crtc m x y"
    and "fixups_reject drv dev kz pre crtc m"
  shows "\<exists>dev' es. drm_crtc_set_mode drv dev kz pre crtc m x y = Some (False, dev', es)"
proof -
  obtain r1 adj1 es1 where f:
    "fixup_outputs drv m (fst (drm_mode_duplicate dev kz pre m)) (crtc_outputs dev crtc)
       = (r1, adj1, es1)"
    by (cases "fixup_outputs drv m (fst (drm_mode_duplicate dev kz pre m)) (crtc_outputs dev crtc)")
  obtain r2 adj2 where c: "call_fixup (crtc_mode_fixup drv crtc) m adj1 = (r2, adj2)"
    by (cases "call_fixup (crtc_mode_fixup drv crtc) m adj1")
  from assms(3) f c have "\<not> r1 \<or> \<not> r2" by (simp add: fixups_reject_def)
  with drm_crtc_set_mode_in_use[OF assms(1) f c, of x y] assms(2) show ?thesis
    by auto
qed

lemma drm_crtc_set_mode_fault:
  "drm_crtc_set_mode drv dev kz pre crtc m x y = None \<longleftrightarrow>
     drm_crtc_in_use dev crtc \<and>
     (set_mode_repositions dev crtc m x y \<and> \<not> crtc_has_mode_set_base drv crtc \<or>
      \<not> set_mode_repositions dev crtc m x y \<and> \<not> fixups_reject drv dev kz pre crtc m \<and>
        kz = None)"
proof (cases "drm_crtc_in_use dev crtc")
  case False
  obtain adj0 dev0 where d: "drm_mode_duplicate dev kz pre m = (adj0, dev0)"
    by (cases "drm_mode_duplicate dev kz pre m")
  from drm_mode_duplicate_frame[OF d] False have "\<not> drm_crtc_in_use dev0 crtc"
    by (simp add: drm_crtc_in_use_def)
  with d False show ?thesis
    by (simp add: drm_crtc_set_mode_def crtc_upd_def)
next
  case True
  obtain r1 adj1 es1 where f:
    "fixup_outputs drv m (fst (drm_mode_duplicate dev kz pre m)) (crtc_outputs dev crtc)
       = (r1, adj1, es1)"
    by (cases "fixup_outputs drv m (fst (drm_mode_duplicate dev kz pre m)) (crtc_outputs dev crtc)")
  obtain r2 adj2 where c: "call_fixup (crtc_mode_fixup drv crtc) m adj1 = (r2, adj2)"
    by (cases "call_fixup (crtc_mode_fixup drv crtc) m adj1")
  from f c have rej: "fixups_reject drv dev kz pre crtc m \<longleftrightarrow> \<not> r1 \<or> \<not> r2"
    by (simp add: fixups_reject_def)
  from call_fixup_null[of "crtc_mode_fixup drv crtc" m adj1] c fixup_outputs_null[OF f]
    drm_mode_duplicate_null[of dev kz pre m]
  have null: "adj2 = None \<longleftrightarrow> kz = None" by simp
  from drm_crtc_set_mode_in_use[OF True f c, of x y] obtain dev2 restored where
    eq: "drm_crtc_set_mode drv dev kz pre crtc m x y =
     (if set_mode_repositions dev crtc m x y
      then (if crtc_has_mode_set_base drv crtc
            then Some (True, dev2, [Crtc_mode_set_base crtc x y]) else None)
      else if \<not> r1 then Some (False, restored, es1)
      else if \<not> r2 then Some (False, restored, es1 @ [Crtc_mode_fixup crtc False])
      else (case adj2 of
              None \<Rightarrow> None
            | Some a \<Rightarrow> Some (True, drm_mode_destroy dev2 a,
                              es1 @ [Crtc_mode_fixup crtc True] @
                              mode_set_events crtc (crtc_outputs dev crtc) m adj2 x y)))"
    by blast
  show ?thesis
    unfolding eq using True rej null
    by (cases "set_mode_repositions dev crtc m x y"; cases r1; cases r2; cases adj2) simp_all
qed

text \<open>
  Claim C6. \<^verbatim>\<open>drm_crtc_in_use\<close> is whether an output of the list is bound to the CRTC.
  Every run of \<^verbatim>\<open>drm_crtc_set_mode\<close> that returns leaves the enabled flag of the CRTC
  equal to \<^verbatim>\<open>drm_crtc_in_use\<close> of the state it started from. When no output is bound to
  the CRTC, the run returns true without any call into the driver; the CRTC is disabled,
  and its mode and position, the other CRTCs and the outputs are as before. The run ends in
  a fault in two cases only, both on a CRTC in use: the run is the change of position of
  lines 464-468 and the CRTC has no \<^verbatim>\<open>mode_set_base\<close>; or the mode could not be
  duplicated and no fixup rejects it, so that line 533 reads the \<^verbatim>\<open>NULL\<close> copy. In every
  other case on a CRTC that an output is bound to, the run returns and leaves the CRTC
  enabled, the other CRTCs and the outputs as before.
\<close>

theorem set_mode_enabled_and_unused:
  "(drm_crtc_in_use dev crtc \<longleftrightarrow>
      (\<exists>out\<in>set (output_list dev). output_crtc (outputs dev out) = Some crtc)) \<and>
   (\<forall>ret dev' es. drm_crtc_set_mode drv dev kz pre crtc m x y = Some (ret, dev', es) \<longrightarrow>
      crtc_enabled (crtcs dev' crtc) = drm_crtc_in_use dev crtc) \<and>
   (\<not> drm_crtc_in_use dev crtc \<longrightarrow>
      (\<exists>dev'. drm_crtc_set_mode drv dev kz pre crtc m x y = Some (True, dev', []) \<and>
         \<not> crtc_enabled (crtcs dev' crtc) \<and>
         crtc_mode (crtcs dev' crtc) = crtc_mode (crtcs dev crtc) \<and>
         crtc_x (crtcs dev' crtc) = crtc_x (crtcs dev crtc) \<and>
         crtc_y (crtcs dev' crtc) = crtc_y (crtcs dev crtc) \<and>
         (\<forall>c. c \<noteq> crtc \<longrightarrow> crtcs dev' c = crtcs dev c) \<and>
         outputs dev' = outputs dev)) \<and>
   (drm_crtc_set_mode drv dev kz pre crtc m x y = None \<longleftrightarrow>
      drm_crtc_in_use dev crtc \<and>
      (set_mode_repositions dev crtc m x y \<and> \<not> crtc_has_mode_set_base drv crtc \<or>
       \<not> set_mode_repositions dev crtc m x y \<and> \<not> fixups_reject drv dev kz pre crtc m \<and>
         kz = None)) \<and>
   ((\<exists>out\<in>set (output_list dev). output_crtc (outputs dev out) = Some crtc) \<and>
    (set_mode_repositions dev crtc m x y \<longrightarrow> crtc_has_mode_set_base drv crtc) \<and>
    (kz = None \<longrightarrow> set_mode_repositions dev crtc m x y \<or> fixups_reject drv dev kz pre crtc m) \<longrightarrow>
      (\<exists>ret dev' es. drm_crtc_set_mode drv dev kz pre crtc m x y = Some (ret, dev', es) \<and>
         crtc_enabled (crtcs dev' crtc) \<and>
         (\<forall>c. c \<noteq> crtc \<longrightarrow> crtcs dev' c = crtcs dev c) \<and> outputs dev' = outputs dev))"
proof -
  have returns: "\<exists>dev'. drm_crtc_set_mode drv dev kz pre crtc m x y = Some (True, dev', [])"
    if "\<not> drm_crtc_in_use dev crtc"
  proof -
    obtain adj0 dev0 where d: "drm_mode_duplicate dev kz pre m = (adj0, dev0)"
      by (cases "drm_mode_duplicate dev kz pre m")
    from drm_mode_duplicate_frame[OF d] that have "\<not> drm_crtc_in_use dev0 crtc"
      by (simp add: drm_crtc_in_use_def)
    with d show ?thesis
      by (simp add: drm_crtc_set_mode_def crtc_upd_def)
  qed
  have unused: "\<exists>dev'. drm_crtc_set_mode drv dev kz pre crtc m x y = Some (True, dev', []) \<and>
         \<not> crtc_enabled (crtcs dev' crtc) \<and>
         crtc_mode (crtcs dev' crtc) = crtc_mode (crtcs dev crtc) \<and>
         crtc_x (crtcs dev' crtc) = crtc_x (crtcs dev crtc) \<and>
         crtc_y (crtcs dev' crtc) = crtc_y (crtcs dev crtc) \<and>
         (\<forall>c. c \<noteq> crtc \<longrightarrow> crtcs dev' c = crtcs dev c) \<and>
         outputs dev' = outputs dev"
    if nu: "\<not> drm_crtc_in_use dev crtc"
  proof -
    from returns[OF nu] obtain dev' where
      r: "drm_crtc_set_mode drv dev kz pre crtc m x y = Some (True, dev', [])" ..
    from drm_crtc_set_mode_outcome[OF r] nu r show ?thesis by auto
  qed
  have flag: "crtc_enabled (crtcs dev' crtc) = drm_crtc_in_use dev crtc"
    if "drm_crtc_set_mode drv dev kz pre crtc m x y = Some (ret, dev', es)" for ret dev' es
    using drm_crtc_set_mode_outcome[OF that] by blast
  note fault = drm_crtc_set_mode_fault[of drv dev kz pre crtc m x y]
  have used: "\<exists>ret dev' es. drm_crtc_set_mode drv dev kz pre crtc m x y = Some (ret, dev', es) \<and>
         crtc_enabled (crtcs dev' crtc) \<and>
         (\<forall>c. c \<noteq> crtc \<longrightarrow> crtcs dev' c = crtcs dev c) \<and> outputs dev' = outputs dev"
    if b: "\<exists>out\<in>set (output_list dev). output_crtc (outputs dev out) = Some crtc"
      and base: "set_mode_repositions dev crtc m x y \<longrightarrow> crtc_has_mode_set_base drv crtc"
      and kz: "kz = None \<longrightarrow> set_mode_repositions dev crtc m x y \<or> fixups_reject drv dev kz pre crtc m"
  proof -
    from b have iu: "drm_crtc_in_use dev crtc" by (simp add: drm_crtc_in_use_iff)
    from fault base kz have "drm_crtc_set_mode drv dev kz pre crtc m x y \<noteq> None" by blast
    then obtain ret dev' es where
      r: "drm_crtc_set_mode drv dev kz pre crtc m x y = Some (ret, dev', es)" by auto
    from drm_crtc_set_mode_outcome[OF r] iu r show ?thesis by auto
  qed
  from unused flag fault used drm_crtc_in_use_iff[of dev crtc] show ?thesis by blast
qed


text \<open>
  The theorem at the device whose flags are stale: the run on the first CRTC, which is
  disabled and has an output, returns and leaves it enabled; the run on the second, which
  is enabled and has no output, returns true without a call and leaves it disabled.
\<close>

theorem set_mode_enabled_and_unused_witness:
  "output_crtc (outputs stale_device 10) = Some 1 \<and> \<not> crtc_enabled (crtcs stale_device 1) \<and>
   \<not> set_mode_repositions stale_device 1 (std_mode drm_h) 0 0 \<and>
   (\<exists>ret dev' es. drm_crtc_set_mode accept_driver stale_device (Some 40) True 1
                    (std_mode drm_h) 0 0 = Some (ret, dev', es) \<and>
                  crtc_enabled (crtcs dev' 1) \<and> crtc_enabled (crtcs dev' 2)) \<and>
   \<not> drm_crtc_in_use stale_device 2 \<and> crtc_enabled (crtcs stale_device 2) \<and>
   (\<exists>dev'. drm_crtc_set_mode accept_driver stale_device (Some 40) True 2 (std_mode drm_h) 0 0
              = Some (True, dev', []) \<and>
            \<not> crtc_enabled (crtcs dev' 2) \<and> \<not> crtc_enabled (crtcs dev' 1))"
proof -
  have b: "output_crtc (outputs stale_device 10) = Some 1" "10 \<in> set (output_list stale_device)"
    "\<not> crtc_enabled (crtcs stale_device 1)" "crtc_enabled (crtcs stale_device 2)"
    by (simp_all add: stale_device_def empty_device_def zero_crtc_def zero_output_def)
  have rep: "\<not> set_mode_repositions stale_device 1 (std_mode drm_h) 0 0"
    by (simp add: set_mode_repositions_def stale_device_def empty_device_def zero_crtc_def
        zero_mode_def std_mode_def drm_mode_equal_def drm_h_def)
  have nu: "\<not> drm_crtc_in_use stale_device 2"
    by (simp add: drm_crtc_in_use_def stale_device_def empty_device_def zero_output_def)
  have h: "(\<exists>out\<in>set (output_list stale_device). output_crtc (outputs stale_device out) = Some 1) \<and>
    (set_mode_repositions stale_device 1 (std_mode drm_h) 0 0 \<longrightarrow>
       crtc_has_mode_set_base accept_driver 1) \<and>
    (Some 40 = (None :: ptr option) \<longrightarrow> set_mode_repositions stale_device 1 (std_mode drm_h) 0 0 \<or>
       fixups_reject accept_driver stale_device (Some 40) True 1 (std_mode drm_h))"
    using b rep by blast
  note t1 = set_mode_enabled_and_unused[of stale_device 1 accept_driver "Some 40" True
      "std_mode drm_h" 0 0]
  from t1[THEN conjunct2, THEN conjunct2, THEN conjunct2, THEN conjunct2, THEN mp, OF h]
  obtain ret dev1 es where r1: "drm_crtc_set_mode accept_driver stale_device (Some 40) True 1
      (std_mode drm_h) 0 0 = Some (ret, dev1, es)" "crtc_enabled (crtcs dev1 1)"
      "\<forall>c. c \<noteq> 1 \<longrightarrow> crtcs dev1 c = crtcs stale_device c"
    by (elim exE conjE)
  note t2 = set_mode_enabled_and_unused[of stale_device 2 accept_driver "Some 40" True
      "std_mode drm_h" 0 0]
  from t2[THEN conjunct2, THEN conjunct2, THEN conjunct1, THEN mp, OF nu]
  obtain dev2 where r2: "drm_crtc_set_mode accept_driver stale_device (Some 40) True 2
      (std_mode drm_h) 0 0 = Some (True, dev2, [])" "\<not> crtc_enabled (crtcs dev2 2)"
      "\<forall>c. c \<noteq> 2 \<longrightarrow> crtcs dev2 c = crtcs stale_device c"
    by (elim exE conjE)
  from r1(3) r2(3) have o: "crtcs dev1 2 = crtcs stale_device 2" "crtcs dev2 1 = crtcs stale_device 1"
    by simp_all
  from b rep nu r1(1,2) r2(1,2) o show ?thesis by auto
qed

text \<open>
  Claim C5. When a \<^verbatim>\<open>mode_fixup\<close> of an output or of the CRTC has rejected the mode during
  a run of \<^verbatim>\<open>drm_crtc_set_mode\<close>, the run returns false, no \<^verbatim>\<open>prepare\<close>, \<^verbatim>\<open>mode_set\<close>
  or \<^verbatim>\<open>commit\<close> of the CRTC or of an output was called, and the mode and the position of
  the CRTC are those of before the run. (A fixup is only called on a CRTC that is in use.)
  And such a run does return: on a CRTC in use, when the run is not the change of position
  of lines 464-468 and a fixup of lines 475-487 rejects the mode (which it does when the
  fixup of an output bound to the CRTC, or that of the CRTC, rejects the mode whatever
  adjusted mode it is given), the run returns false, a rejected fixup is among its calls,
  no \<^verbatim>\<open>prepare\<close>, \<^verbatim>\<open>mode_set\<close> or \<^verbatim>\<open>commit\<close> is, and the mode and the position of the
  CRTC are those of before the run.
\<close>

theorem set_mode_fixup_rejection:
  "(\<forall>ret dev' es.
      drm_crtc_set_mode drv dev kz pre crtc m x y = Some (ret, dev', es) \<and>
      (\<exists>e\<in>set es. rejected_fixup e) \<longrightarrow>
        \<not> ret \<and> drm_crtc_in_use dev crtc \<and> (\<forall>e\<in>set es. \<not> apply_call e) \<and>
        crtc_mode (crtcs dev' crtc) = crtc_mode (crtcs dev crtc) \<and>
        crtc_x (crtcs dev' crtc) = crtc_x (crtcs dev crtc) \<and>
        crtc_y (crtcs dev' crtc) = crtc_y (crtcs dev crtc)) \<and>
   (drm_crtc_in_use dev crtc \<and> \<not> set_mode_repositions dev crtc m x y \<and>
    (fixups_reject drv dev kz pre crtc m \<or>
     (\<exists>out\<in>set (output_list dev). output_crtc (outputs dev out) = Some crtc \<and>
        (\<forall>adj. \<not> fst (output_mode_fixup drv out m adj))) \<or>
     (\<forall>adj. \<not> fst (crtc_mode_fixup drv crtc m adj))) \<longrightarrow>
      (\<exists>dev' es.
         drm_crtc_set_mode drv dev kz pre crtc m x y = Some (False, dev', es) \<and>
         (\<exists>e\<in>set es. rejected_fixup e) \<and> (\<forall>e\<in>set es. \<not> apply_call e) \<and>
         crtc_mode (crtcs dev' crtc) = crtc_mode (crtcs dev crtc) \<and>
         crtc_x (crtcs dev' crtc) = crtc_x (crtcs dev crtc) \<and>
         crtc_y (crtcs dev' crtc) = crtc_y (crtcs dev crtc) \<and>
         crtc_enabled (crtcs dev' crtc)))"
proof -
  have A: "\<not> ret \<and> drm_crtc_in_use dev crtc \<and> (\<forall>e\<in>set es. \<not> apply_call e) \<and>
        crtc_mode (crtcs dev' crtc) = crtc_mode (crtcs dev crtc) \<and>
        crtc_x (crtcs dev' crtc) = crtc_x (crtcs dev crtc) \<and>
        crtc_y (crtcs dev' crtc) = crtc_y (crtcs dev crtc)"
    if run: "drm_crtc_set_mode drv dev kz pre crtc m x y = Some (ret, dev', es)"
      and rej: "\<exists>e\<in>set es. rejected_fixup e" for ret dev' es
  proof -
    note o = drm_crtc_set_mode_outcome[OF run]
    from o rej have "\<not> ret" by blast
    moreover from o rej have "drm_crtc_in_use dev crtc" by fastforce
    ultimately show ?thesis using o by blast
  qed
  have B: "\<exists>dev' es.
         drm_crtc_set_mode drv dev kz pre crtc m x y = Some (False, dev', es) \<and>
         (\<exists>e\<in>set es. rejected_fixup e) \<and> (\<forall>e\<in>set es. \<not> apply_call e) \<and>
         crtc_mode (crtcs dev' crtc) = crtc_mode (crtcs dev crtc) \<and>
         crtc_x (crtcs dev' crtc) = crtc_x (crtcs dev crtc) \<and>
         crtc_y (crtcs dev' crtc) = crtc_y (crtcs dev crtc) \<and>
         crtc_enabled (crtcs dev' crtc)"
    if iu: "drm_crtc_in_use dev crtc" and rep: "\<not> set_mode_repositions dev crtc m x y"
      and why: "fixups_reject drv dev kz pre crtc m \<or>
        (\<exists>out\<in>set (output_list dev). output_crtc (outputs dev out) = Some crtc \<and>
           (\<forall>adj. \<not> fst (output_mode_fixup drv out m adj))) \<or>
        (\<forall>adj. \<not> fst (crtc_mode_fixup drv crtc m adj))"
  proof -
    from why have fr: "fixups_reject drv dev kz pre crtc m"
    proof (elim disjE bexE conjE)
      fix out
      assume "out \<in> set (output_list dev)" "output_crtc (outputs dev out) = Some crtc"
        "\<forall>adj. \<not> fst (output_mode_fixup drv out m adj)"
      then show ?thesis
        by (intro fixups_reject_output[of out]) (simp_all add: crtc_outputs_def)
    qed (simp_all add: fixups_reject_crtc)
    from drm_crtc_set_mode_rejected[OF iu rep fr] obtain dev' es where
      run: "drm_crtc_set_mode drv dev kz pre crtc m x y = Some (False, dev', es)" by blast
    note o = drm_crtc_set_mode_outcome[OF run]
    from o iu have "(\<exists>e\<in>set es. rejected_fixup e) \<and> (\<forall>e\<in>set es. \<not> apply_call e) \<and>
         crtc_mode (crtcs dev' crtc) = crtc_mode (crtcs dev crtc) \<and>
         crtc_x (crtcs dev' crtc) = crtc_x (crtcs dev crtc) \<and>
         crtc_y (crtcs dev' crtc) = crtc_y (crtcs dev crtc) \<and>
         crtc_enabled (crtcs dev' crtc)" by blast
    with run show ?thesis by blast
  qed
  from A B show ?thesis by blast
qed


text \<open>
  The theorem at a CRTC bound to one output, with a driver whose CRTC fixup rejects the
  mode (the fixup of the output is called first and accepts it), and with a driver whose
  output fixup rejects it (that fixup is the only call).
\<close>

theorem set_mode_fixup_rejection_witness:
  "drm_crtc_in_use mode_device 1 \<and>
   \<not> set_mode_repositions mode_device 1 (std_mode drm_h) 0 0 \<and>
   (\<forall>adj. \<not> fst (crtc_mode_fixup crtc_reject_driver 1 (std_mode drm_h) adj)) \<and>
   (\<exists>dev'. drm_crtc_set_mode crtc_reject_driver mode_device (Some 40) True 1 (std_mode drm_h) 0 0
             = Some (False, dev', [Output_mode_fixup 10 True, Crtc_mode_fixup 1 False]) \<and>
          crtc_mode (crtcs dev' 1) = zero_mode \<and> crtc_x (crtcs dev' 1) = 0 \<and>
          crtc_y (crtcs dev' 1) = 0) \<and>
   output_crtc (outputs mode_device 10) = Some 1 \<and>
   (\<forall>adj. \<not> fst (output_mode_fixup reject_driver 10 (std_mode drm_h) adj)) \<and>
   (\<exists>dev'. drm_crtc_set_mode reject_driver mode_device (Some 40) True 1 (std_mode drm_h) 0 0
             = Some (False, dev', [Output_mode_fixup 10 False]) \<and>
          crtc_mode (crtcs dev' 1) = zero_mode \<and> crtc_x (crtcs dev' 1) = 0 \<and>
          crtc_y (crtcs dev' 1) = 0)"
proof -
  have iu: "drm_crtc_in_use mode_device 1"
    by (simp add: drm_crtc_in_use_def mode_device_def empty_device_def)
  have rep: "\<not> set_mode_repositions mode_device 1 (std_mode drm_h) 0 0"
    by (simp add: set_mode_repositions_def mode_device_def empty_device_def zero_crtc_def
        zero_mode_def std_mode_def drm_mode_equal_def drm_h_def)
  have rc: "\<forall>adj. \<not> fst (crtc_mode_fixup crtc_reject_driver 1 (std_mode drm_h) adj)"
    by (simp add: crtc_reject_driver_def accept_driver_def)
  have ro: "\<forall>adj. \<not> fst (output_mode_fixup reject_driver 10 (std_mode drm_h) adj)"
    by (simp add: reject_driver_def accept_driver_def)
  have b: "output_crtc (outputs mode_device 10) = Some 1" "10 \<in> set (output_list mode_device)"
    by (simp_all add: mode_device_def empty_device_def)
  have old: "crtc_mode (crtcs mode_device 1) = zero_mode" "crtc_x (crtcs mode_device 1) = 0"
    "crtc_y (crtcs mode_device 1) = 0"
    by (simp_all add: mode_device_def empty_device_def zero_crtc_def)
  from set_mode_fixup_rejection[of crtc_reject_driver mode_device "Some 40" True 1
      "std_mode drm_h" 0 0] iu rep rc
  obtain dev1 es1 where r1: "drm_crtc_set_mode crtc_reject_driver mode_device (Some 40) True 1
      (std_mode drm_h) 0 0 = Some (False, dev1, es1)"
      "crtc_mode (crtcs dev1 1) = crtc_mode (crtcs mode_device 1)"
      "crtc_x (crtcs dev1 1) = crtc_x (crtcs mode_device 1)"
      "crtc_y (crtcs dev1 1) = crtc_y (crtcs mode_device 1)"
    by blast
  have e1: "\<exists>d. drm_crtc_set_mode crtc_reject_driver mode_device (Some 40) True 1
      (std_mode drm_h) 0 0 = Some (False, d, [Output_mode_fixup 10 True, Crtc_mode_fixup 1 False])"
    by (simp add: drm_crtc_set_mode_def drm_mode_duplicate_def drm_mode_create_def
        drm_idr_get_def idr_get_new_above_def MAX_ID_def crtc_upd_def drm_crtc_in_use_def
        crtc_outputs_def call_fixup_def crtc_reject_driver_def accept_driver_def mode_device_def
        empty_device_def zero_crtc_def zero_output_def zero_mode_def std_mode_def
        drm_mode_equal_def drm_h_def Let_def)
  from set_mode_fixup_rejection[of reject_driver mode_device "Some 40" True 1
      "std_mode drm_h" 0 0] iu rep ro b
  obtain dev2 es2 where r2: "drm_crtc_set_mode reject_driver mode_device (Some 40) True 1
      (std_mode drm_h) 0 0 = Some (False, dev2, es2)"
      "crtc_mode (crtcs dev2 1) = crtc_mode (crtcs mode_device 1)"
      "crtc_x (crtcs dev2 1) = crtc_x (crtcs mode_device 1)"
      "crtc_y (crtcs dev2 1) = crtc_y (crtcs mode_device 1)"
    by blast
  have e2: "\<exists>d. drm_crtc_set_mode reject_driver mode_device (Some 40) True 1
      (std_mode drm_h) 0 0 = Some (False, d, [Output_mode_fixup 10 False])"
    by (simp add: drm_crtc_set_mode_def drm_mode_duplicate_def drm_mode_create_def
        drm_idr_get_def idr_get_new_above_def MAX_ID_def crtc_upd_def drm_crtc_in_use_def
        crtc_outputs_def call_fixup_def reject_driver_def accept_driver_def mode_device_def
        empty_device_def zero_crtc_def zero_output_def zero_mode_def std_mode_def
        drm_mode_equal_def drm_h_def Let_def)
  from e1 r1 old have c1: "\<exists>dev'. drm_crtc_set_mode crtc_reject_driver mode_device (Some 40) True 1
        (std_mode drm_h) 0 0
             = Some (False, dev', [Output_mode_fixup 10 True, Crtc_mode_fixup 1 False]) \<and>
          crtc_mode (crtcs dev' 1) = zero_mode \<and> crtc_x (crtcs dev' 1) = 0 \<and>
          crtc_y (crtcs dev' 1) = 0"
    by auto
  from e2 r2 old have c2: "\<exists>dev'. drm_crtc_set_mode reject_driver mode_device (Some 40) True 1
        (std_mode drm_h) 0 0
             = Some (False, dev', [Output_mode_fixup 10 False]) \<and>
          crtc_mode (crtcs dev' 1) = zero_mode \<and> crtc_x (crtcs dev' 1) = 0 \<and>
          crtc_y (crtcs dev' 1) = 0"
    by auto
  from iu rep rc c1 b(1) ro c2 show ?thesis by blast
qed

subsection \<open>The configuration transaction\<close>

lemma set_config_bind_fold:
  assumes "distinct os"
    and "foldl (set_config_bind crtc souts) (ch, d, sv) os = (ch', d', sv')"
  shows "sv' = sv @ map (\<lambda>out. output_crtc (outputs d out)) os \<and>
         output_list d' = output_list d \<and> crtc_list d' = crtc_list d \<and> crtcs d' = crtcs d \<and>
         (\<forall>out. out \<notin> set os \<longrightarrow> outputs d' out = outputs d out)"
  using assms
proof (induction os arbitrary: ch d sv)
  case Nil
  then show ?case by simp
next
  case (Cons a os)
  obtain ch1 d1 where s: "set_config_bind crtc souts (ch, d, sv) a =
      (ch1, d1, sv @ [output_crtc (outputs d a)])"
    and d1: "output_list d1 = output_list d" "crtc_list d1 = crtc_list d" "crtcs d1 = crtcs d"
      "\<forall>out. out \<noteq> a \<longrightarrow> outputs d1 out = outputs d out"
    by (cases "(if a \<in> set souts then Some crtc
                          else if output_crtc (outputs d a) = Some crtc then None else output_crtc (outputs d a)) = output_crtc (outputs d a)")
      (auto simp: set_config_bind_def Let_def output_upd_def)
  from Cons.prems have "distinct os" "a \<notin> set os" by auto
  from Cons.prems(2) s
  have "foldl (set_config_bind crtc souts) (ch1, d1, sv @ [output_crtc (outputs d a)]) os = (ch', d', sv')"
    by simp
  from Cons.IH[OF \<open>distinct os\<close> this] d1 \<open>a \<notin> set os\<close> show ?case
    by auto
qed

lemma set_config_restore_fold:
  "foldl (\<lambda>d (out, c). output_upd d out (\<lambda>ou. ou\<lparr>output_crtc := c\<rparr>)) d (zip os (map f os)) = d' \<Longrightarrow>
     (\<forall>out. output_crtc (outputs d' out) = (if out \<in> set os then f out else output_crtc (outputs d out))) \<and>
     crtcs d' = crtcs d \<and> output_list d' = output_list d \<and> crtc_list d' = crtc_list d"
proof (induction os arbitrary: d)
  case Nil
  then show ?case by simp
next
  case (Cons a os)
  from Cons.prems
  have "foldl (\<lambda>d (out, c). output_upd d out (\<lambda>ou. ou\<lparr>output_crtc := c\<rparr>))
          (output_upd d a (\<lambda>ou. ou\<lparr>output_crtc := f a\<rparr>)) (zip os (map f os)) = d'"
    by simp
  from Cons.IH[OF this] show ?case
    by (auto simp: output_upd_def)
qed

lemma disable_unused_no_rejection:
  "e \<in> set (drm_disable_unused_functions d) \<Longrightarrow> \<not> rejected_fixup e"
  by (auto simp: drm_disable_unused_functions_def)

lemma set_config_bind_result:
  assumes "distinct os"
    and "foldl (set_config_bind crtc souts) (ch, d, sv) os = (ch', d', sv')"
  shows "(\<forall>out\<in>set os. output_crtc (outputs d' out) =
            (if out \<in> set souts then Some crtc
             else if output_crtc (outputs d out) = Some crtc then None
             else output_crtc (outputs d out))) \<and>
         (ch' \<longleftrightarrow> ch \<or> (\<exists>out\<in>set os.
            (if out \<in> set souts then Some crtc
             else if output_crtc (outputs d out) = Some crtc then None
             else output_crtc (outputs d out)) \<noteq> output_crtc (outputs d out)))"
  using assms
proof (induction os arbitrary: ch d sv)
  case Nil
  then show ?case by simp
next
  case (Cons a os)
  define tgt where "tgt = (if a \<in> set souts then Some crtc
     else if output_crtc (outputs d a) = Some crtc then None else output_crtc (outputs d a))"
  obtain ch1 d1 where s: "set_config_bind crtc souts (ch, d, sv) a =
      (ch1, d1, sv @ [output_crtc (outputs d a)])"
    and d1: "\<forall>out. out \<noteq> a \<longrightarrow> outputs d1 out = outputs d out"
      "output_crtc (outputs d1 a) = tgt"
      "ch1 \<longleftrightarrow> ch \<or> tgt \<noteq> output_crtc (outputs d a)"
    unfolding tgt_def
    by (cases "(if a \<in> set souts then Some crtc
                          else if output_crtc (outputs d a) = Some crtc then None else output_crtc (outputs d a)) = output_crtc (outputs d a)")
      (auto simp: set_config_bind_def Let_def output_upd_def)
  from Cons.prems have os: "distinct os" "a \<notin> set os" by auto
  from Cons.prems(2) s
  have f: "foldl (set_config_bind crtc souts) (ch1, d1, sv @ [output_crtc (outputs d a)]) os = (ch', d', sv')"
    by simp
  from set_config_bind_fold[OF os(1) f] os(2) have a: "outputs d' a = outputs d1 a" by simp
  from os(2) d1(1) have same: "\<forall>out\<in>set os. outputs d1 out = outputs d out" by auto
  note ih = Cons.IH[OF os(1) f]
  have 1: "\<forall>out\<in>set (a # os). output_crtc (outputs d' out) =
            (if out \<in> set souts then Some crtc
             else if output_crtc (outputs d out) = Some crtc then None
             else output_crtc (outputs d out))"
    using ih[THEN conjunct1] same a d1(2) by (simp add: tgt_def)
  have 2: "ch' \<longleftrightarrow> ch \<or> (\<exists>out\<in>set (a # os).
            (if out \<in> set souts then Some crtc
             else if output_crtc (outputs d out) = Some crtc then None
             else output_crtc (outputs d out)) \<noteq> output_crtc (outputs d out))"
    using ih[THEN conjunct2] same d1(3) by (simp add: tgt_def)
  from 1 2 show ?case by blast
qed

lemma drm_mode_duplicate_crtc_upd:
  "fst (drm_mode_duplicate (crtc_upd dev c f) kz pre m) = fst (drm_mode_duplicate dev kz pre m)"
  by (simp add: drm_mode_duplicate_def drm_mode_create_def drm_idr_get_def crtc_upd_def
      split: option.splits sum.splits prod.splits)

lemma fixups_reject_crtc_upd:
  "fixups_reject drv (crtc_upd dev c f) kz pre crtc m = fixups_reject drv dev kz pre crtc m"
  unfolding fixups_reject_def drm_mode_duplicate_crtc_upd
  by (simp add: crtc_outputs_def crtc_upd_def)

lemma drm_crtc_in_use_crtc_upd:
  "drm_crtc_in_use (crtc_upd dev c f) crtc = drm_crtc_in_use dev crtc"
  by (simp add: drm_crtc_in_use_def crtc_upd_def)

lemma drm_crtc_set_config_unfold:
  assumes crtc: "set_crtc s = Some crtc" and mode: "set_mode s = Some m"
    and loop: "set_config_loop dev s crtc = (changed1, dev1, save)"
  shows "drm_crtc_set_config drv dev alloc kz pre (Some s) =
    (if \<not> alloc then Some (- ENOMEM, dev, [])
     else if set_config_changed drv dev s crtc then
       (case drm_crtc_set_mode drv
               (crtc_upd dev1 crtc (\<lambda>c. c\<lparr>crtc_fb := set_fb s, crtc_enabled := True\<rparr>))
               kz pre crtc m (set_x s) (set_y s) of
          None \<Rightarrow> None
        | Some (r, dev3, es3) \<Rightarrow>
            if r then Some (0, crtc_upd dev3 crtc
                                   (\<lambda>c. c\<lparr>desired_x := set_x s, desired_y := set_y s,
                                           desired_mode := Some m\<rparr>),
                            es3 @ drm_disable_unused_functions (crtc_upd dev3 crtc
                                   (\<lambda>c. c\<lparr>desired_x := set_x s, desired_y := set_y s,
                                           desired_mode := Some m\<rparr>)))
            else Some (- EINVAL,
                       set_config_restore
                         (crtc_upd dev3 crtc (\<lambda>c. c\<lparr>crtc_enabled := crtc_enabled (crtcs dev crtc)\<rparr>))
                         save, es3))
     else if crtc_fb (crtcs dev crtc) \<noteq> set_fb s \<or>
             set_x s \<noteq> crtc_x (crtcs dev crtc) \<or> set_y s \<noteq> crtc_y (crtcs dev crtc)
     then Some (0, crtc_upd dev1 crtc (\<lambda>c. c\<lparr>crtc_fb := set_fb s\<rparr>),
                         [Crtc_mode_set_base crtc (set_x s) (set_y s)])
     else Some (0, dev1, []))"
proof -
  define flip where "flip \<longleftrightarrow> (crtc_fb (crtcs dev crtc) \<noteq> set_fb s \<or>
                   set_x s \<noteq> crtc_x (crtcs dev crtc) \<or> set_y s \<noteq> crtc_y (crtcs dev crtc))"
  from loop have b: "foldl (set_config_bind crtc (set_outputs s))
      (\<not> drm_mode_equal m (crtc_mode (crtcs dev crtc)), dev, []) (output_list dev) =
       (changed1, dev1, save)"
    by (simp add: set_config_loop_def mode)
  have ch: "set_config_changed drv dev s crtc \<longleftrightarrow>
      changed1 \<or> flip \<and> \<not> crtc_has_mode_set_base drv crtc"
    by (simp add: set_config_changed_def loop flip_def)
  show ?thesis
    unfolding drm_crtc_set_config_def option.case crtc mode Let_def
      flip_def[symmetric] b prod.case ch
    by (auto split: option.splits bool.splits)
qed

text \<open>
  Claim C1. When a request with a CRTC and a mode makes \<^verbatim>\<open>drm_crtc_set_config\<close> run the
  mode-apply protocol and a fixup rejects the mode, the call returns \<^verbatim>\<open>-EINVAL\<close>, and the
  binding of every output and the mode, the position and the enabled flag of the CRTC are
  those of before the call. And such a call does return: when \<^verbatim>\<open>save_crtcs\<close> is
  allocated, the request changes something (\<^verbatim>\<open>changed\<close> at line 1191, which is that the
  mode differs, or a binding changes in the loop of lines 1169-1185, or the framebuffer or
  the position differs and the CRTC has no \<^verbatim>\<open>mode_set_base\<close>), the request lists an
  output of the device, the run of \<^verbatim>\<open>drm_crtc_set_mode\<close> is not the change of position of
  lines 464-468, and a fixup rejects the mode on the bindings the loop leaves (which it does
  when the fixup of a listed output, or that of the CRTC, rejects the mode whatever
  adjusted mode it is given), the call returns \<^verbatim>\<open>-EINVAL\<close> with a rejected fixup among its
  calls and no \<^verbatim>\<open>prepare\<close>, \<^verbatim>\<open>mode_set\<close> or \<^verbatim>\<open>commit\<close>, and everything is restored as
  above. (The outputs of the list are distinct objects.)
\<close>

theorem set_config_rollback:
  assumes dist: "distinct (output_list dev)"
    and crtc: "set_crtc s = Some crtc" and mode: "set_mode s = Some m"
  shows "(\<forall>ret dev' es.
            drm_crtc_set_config drv dev alloc kz pre (Some s) = Some (ret, dev', es) \<and>
            (\<exists>e\<in>set es. rejected_fixup e) \<longrightarrow>
              ret = - EINVAL \<and>
              (\<forall>out. output_crtc (outputs dev' out) = output_crtc (outputs dev out)) \<and>
              crtc_mode (crtcs dev' crtc) = crtc_mode (crtcs dev crtc) \<and>
              crtc_x (crtcs dev' crtc) = crtc_x (crtcs dev crtc) \<and>
              crtc_y (crtcs dev' crtc) = crtc_y (crtcs dev crtc) \<and>
              crtc_enabled (crtcs dev' crtc) = crtc_enabled (crtcs dev crtc)) \<and>
         (alloc \<and> set_config_changed drv dev s crtc \<and>
          (\<exists>out\<in>set (output_list dev). out \<in> set (set_outputs s)) \<and>
          \<not> set_mode_repositions dev crtc m (set_x s) (set_y s) \<and>
          (fixups_reject drv (set_config_bound dev s crtc) kz pre crtc m \<or>
           (\<exists>out\<in>set (output_list dev). out \<in> set (set_outputs s) \<and>
              (\<forall>adj. \<not> fst (output_mode_fixup drv out m adj))) \<or>
           (\<forall>adj. \<not> fst (crtc_mode_fixup drv crtc m adj))) \<longrightarrow>
            (\<exists>dev' es.
               drm_crtc_set_config drv dev alloc kz pre (Some s) = Some (- EINVAL, dev', es) \<and>
               (\<exists>e\<in>set es. rejected_fixup e) \<and> (\<forall>e\<in>set es. \<not> apply_call e) \<and>
               (\<forall>out. output_crtc (outputs dev' out) = output_crtc (outputs dev out)) \<and>
               crtc_mode (crtcs dev' crtc) = crtc_mode (crtcs dev crtc) \<and>
               crtc_x (crtcs dev' crtc) = crtc_x (crtcs dev crtc) \<and>
               crtc_y (crtcs dev' crtc) = crtc_y (crtcs dev crtc) \<and>
               crtc_enabled (crtcs dev' crtc) = crtc_enabled (crtcs dev crtc))) \<and>
         (set_config_changed drv dev s crtc \<longleftrightarrow>
            \<not> drm_mode_equal m (crtc_mode (crtcs dev crtc)) \<or>
            (\<exists>out\<in>set (output_list dev).
               (if out \<in> set (set_outputs s) then Some crtc
                else if output_crtc (outputs dev out) = Some crtc then None
                else output_crtc (outputs dev out)) \<noteq> output_crtc (outputs dev out)) \<or>
            (crtc_fb (crtcs dev crtc) \<noteq> set_fb s \<or>
             set_x s \<noteq> crtc_x (crtcs dev crtc) \<or> set_y s \<noteq> crtc_y (crtcs dev crtc)) \<and>
            \<not> crtc_has_mode_set_base drv crtc)"
proof -
  obtain changed1 dev1 save where loop: "set_config_loop dev s crtc = (changed1, dev1, save)"
    by (cases "set_config_loop dev s crtc")
  then have b: "foldl (set_config_bind crtc (set_outputs s))
      (\<not> drm_mode_equal m (crtc_mode (crtcs dev crtc)), dev, []) (output_list dev) =
       (changed1, dev1, save)"
    by (simp add: set_config_loop_def mode)
  from loop have bound: "set_config_bound dev s crtc = dev1"
    by (simp add: set_config_bound_def)
  from set_config_bind_fold[OF dist b]
  have save: "save = map (\<lambda>out. output_crtc (outputs dev out)) (output_list dev)"
    and fr1: "output_list dev1 = output_list dev" "crtcs dev1 = crtcs dev"
      "\<forall>out. out \<notin> set (output_list dev) \<longrightarrow> outputs dev1 out = outputs dev out"
    by auto
  note res = set_config_bind_result[OF dist b]
  define dev2 where "dev2 = crtc_upd dev1 crtc
                         (\<lambda>c. c\<lparr>crtc_fb := set_fb s, crtc_enabled := True\<rparr>)"
  have fr2: "output_list dev2 = output_list dev" "outputs dev2 = outputs dev1"
    "crtc_mode (crtcs dev2 crtc) = crtc_mode (crtcs dev crtc)"
    "crtc_x (crtcs dev2 crtc) = crtc_x (crtcs dev crtc)"
    "crtc_y (crtcs dev2 crtc) = crtc_y (crtcs dev crtc)"
    using fr1 by (simp_all add: dev2_def crtc_upd_def)
  note unfolded = drm_crtc_set_config_unfold[OF crtc mode loop, of drv alloc kz pre,
      unfolded dev2_def[symmetric]]
  have A: "ret = - EINVAL \<and>
         (\<forall>out. output_crtc (outputs dev' out) = output_crtc (outputs dev out)) \<and>
         crtc_mode (crtcs dev' crtc) = crtc_mode (crtcs dev crtc) \<and>
         crtc_x (crtcs dev' crtc) = crtc_x (crtcs dev crtc) \<and>
         crtc_y (crtcs dev' crtc) = crtc_y (crtcs dev crtc) \<and>
         crtc_enabled (crtcs dev' crtc) = crtc_enabled (crtcs dev crtc)"
    if run: "drm_crtc_set_config drv dev alloc kz pre (Some s) = Some (ret, dev', es)"
      and rej: "\<exists>e\<in>set es. rejected_fixup e" for ret dev' es
  proof (cases "alloc \<and> set_config_changed drv dev s crtc")
    case False
    with run[unfolded unfolded] rej show ?thesis by (auto split: if_splits)
  next
    case True
    with run[unfolded unfolded] obtain r dev3 es3 where
      sm: "drm_crtc_set_mode drv dev2 kz pre crtc m (set_x s) (set_y s) = Some (r, dev3, es3)"
      by (auto split: option.splits)
    note o = drm_crtc_set_mode_outcome[OF sm]
    show ?thesis
    proof (cases r)
      case True
      with o have "\<not> (\<exists>e\<in>set es3. rejected_fixup e)" by blast
      with run[unfolded unfolded] sm True \<open>alloc \<and> _\<close> rej show ?thesis
        by (auto split: if_splits dest: disable_unused_no_rejection)
    next
      case False
      define dev4 where "dev4 = crtc_upd dev3 crtc (\<lambda>c. c\<lparr>crtc_enabled := crtc_enabled (crtcs dev crtc)\<rparr>)"
      from run[unfolded unfolded] sm False \<open>alloc \<and> _\<close>
      have res: "ret = - EINVAL" "dev' = set_config_restore dev4 save"
        by (auto simp: dev4_def split: if_splits)
      have fr4: "output_list dev4 = output_list dev" "outputs dev4 = outputs dev1"
        "crtc_mode (crtcs dev4 crtc) = crtc_mode (crtcs dev crtc)"
        "crtc_x (crtcs dev4 crtc) = crtc_x (crtcs dev crtc)"
        "crtc_y (crtcs dev4 crtc) = crtc_y (crtcs dev crtc)"
        "crtc_enabled (crtcs dev4 crtc) = crtc_enabled (crtcs dev crtc)"
        using o False fr2 by (simp_all add: dev4_def crtc_upd_def)
      have "foldl (\<lambda>d (out, c). output_upd d out (\<lambda>ou. ou\<lparr>output_crtc := c\<rparr>)) dev4
              (zip (output_list dev) (map (\<lambda>out. output_crtc (outputs dev out)) (output_list dev))) = dev'"
        using res(2) by (simp add: set_config_restore_def fr4 save)
      from set_config_restore_fold[OF this] fr4 fr1 res(1) show ?thesis
        by auto
    qed
  qed
  have B: "\<exists>dev' es.
         drm_crtc_set_config drv dev alloc kz pre (Some s) = Some (- EINVAL, dev', es) \<and>
         (\<exists>e\<in>set es. rejected_fixup e) \<and> (\<forall>e\<in>set es. \<not> apply_call e) \<and>
         (\<forall>out. output_crtc (outputs dev' out) = output_crtc (outputs dev out)) \<and>
         crtc_mode (crtcs dev' crtc) = crtc_mode (crtcs dev crtc) \<and>
         crtc_x (crtcs dev' crtc) = crtc_x (crtcs dev crtc) \<and>
         crtc_y (crtcs dev' crtc) = crtc_y (crtcs dev crtc) \<and>
         crtc_enabled (crtcs dev' crtc) = crtc_enabled (crtcs dev crtc)"
    if alloc: alloc and ch: "set_config_changed drv dev s crtc"
      and bnd: "\<exists>out\<in>set (output_list dev). out \<in> set (set_outputs s)"
      and rep: "\<not> set_mode_repositions dev crtc m (set_x s) (set_y s)"
      and why: "fixups_reject drv (set_config_bound dev s crtc) kz pre crtc m \<or>
           (\<exists>out\<in>set (output_list dev). out \<in> set (set_outputs s) \<and>
              (\<forall>adj. \<not> fst (output_mode_fixup drv out m adj))) \<or>
           (\<forall>adj. \<not> fst (crtc_mode_fixup drv crtc m adj))"
  proof -
    have listed: "out \<in> set (crtc_outputs dev2 crtc)"
      if "out \<in> set (output_list dev)" "out \<in> set (set_outputs s)" for out
      using that res[THEN conjunct1] by (simp add: crtc_outputs_def fr2)
    from bnd listed have iu: "drm_crtc_in_use dev2 crtc"
      by (auto simp: drm_crtc_in_use_iff crtc_outputs_def)
    from rep have rep2: "\<not> set_mode_repositions dev2 crtc m (set_x s) (set_y s)"
      by (simp add: set_mode_repositions_def fr2)
    from why have fr: "fixups_reject drv dev2 kz pre crtc m"
    proof (elim disjE bexE conjE)
      assume "fixups_reject drv (set_config_bound dev s crtc) kz pre crtc m"
      then show ?thesis by (simp add: bound dev2_def fixups_reject_crtc_upd)
    next
      fix out
      assume "out \<in> set (output_list dev)" "out \<in> set (set_outputs s)"
        "\<forall>adj. \<not> fst (output_mode_fixup drv out m adj)"
      then show ?thesis
        by (intro fixups_reject_output[of out] listed)
    qed (simp add: fixups_reject_crtc)
    from drm_crtc_set_mode_rejected[OF iu rep2 fr] obtain dev3 es where
      sm: "drm_crtc_set_mode drv dev2 kz pre crtc m (set_x s) (set_y s) = Some (False, dev3, es)"
      by blast
    note o = drm_crtc_set_mode_outcome[OF sm]
    from o have ev: "(\<exists>e\<in>set es. rejected_fixup e) \<and> (\<forall>e\<in>set es. \<not> apply_call e)" by blast
    define dev' where "dev' = set_config_restore
       (crtc_upd dev3 crtc (\<lambda>c. c\<lparr>crtc_enabled := crtc_enabled (crtcs dev crtc)\<rparr>)) save"
    have run: "drm_crtc_set_config drv dev alloc kz pre (Some s) = Some (- EINVAL, dev', es)"
      unfolding unfolded using alloc ch sm by (simp add: dev'_def)
    from A[OF run] ev run show ?thesis by blast
  qed
  have C: "set_config_changed drv dev s crtc \<longleftrightarrow>
            \<not> drm_mode_equal m (crtc_mode (crtcs dev crtc)) \<or>
            (\<exists>out\<in>set (output_list dev).
               (if out \<in> set (set_outputs s) then Some crtc
                else if output_crtc (outputs dev out) = Some crtc then None
                else output_crtc (outputs dev out)) \<noteq> output_crtc (outputs dev out)) \<or>
            (crtc_fb (crtcs dev crtc) \<noteq> set_fb s \<or>
             set_x s \<noteq> crtc_x (crtcs dev crtc) \<or> set_y s \<noteq> crtc_y (crtcs dev crtc)) \<and>
            \<not> crtc_has_mode_set_base drv crtc"
    unfolding set_config_changed_def loop fst_conv res[THEN conjunct2] by blast
  from A B C show ?thesis by blast
qed


text \<open>
  The theorem at the request that moves the CRTC from the first output to the second, with
  a driver whose CRTC fixup rejects the mode and with one whose output fixup does: in both
  runs the first output is bound to the CRTC again and the second is unbound again.
\<close>

theorem set_config_rollback_witness:
  "distinct (output_list mode_device) \<and> set_crtc move_request = Some 1 \<and>
   set_mode move_request = Some (std_mode drm_h) \<and>
   set_config_changed crtc_reject_driver mode_device move_request 1 \<and>
   11 \<in> set (output_list mode_device) \<and> 11 \<in> set (set_outputs move_request) \<and>
   \<not> set_mode_repositions mode_device 1 (std_mode drm_h) (set_x move_request) (set_y move_request) \<and>
   (\<forall>adj. \<not> fst (crtc_mode_fixup crtc_reject_driver 1 (std_mode drm_h) adj)) \<and>
   (\<exists>dev'. drm_crtc_set_config crtc_reject_driver mode_device True (Some 40) True
              (Some move_request)
              = Some (- 22, dev', [Output_mode_fixup 11 True, Crtc_mode_fixup 1 False]) \<and>
            output_crtc (outputs dev' 10) = Some 1 \<and> output_crtc (outputs dev' 11) = None \<and>
            crtc_enabled (crtcs dev' 1) \<and> crtc_mode (crtcs dev' 1) = zero_mode) \<and>
   (\<forall>adj. \<not> fst (output_mode_fixup reject_driver 11 (std_mode drm_h) adj)) \<and>
   set_config_changed reject_driver mode_device move_request 1 \<and>
   (\<exists>dev'. drm_crtc_set_config reject_driver mode_device True (Some 40) True
              (Some move_request) = Some (- 22, dev', [Output_mode_fixup 11 False]) \<and>
            output_crtc (outputs dev' 10) = Some 1 \<and> output_crtc (outputs dev' 11) = None \<and>
            crtc_enabled (crtcs dev' 1) \<and> crtc_mode (crtcs dev' 1) = zero_mode)"
proof -
  have h: "distinct (output_list mode_device)" "set_crtc move_request = Some 1"
    "set_mode move_request = Some (std_mode drm_h)"
    by (simp_all add: mode_device_def empty_device_def move_request_def)
  have l: "11 \<in> set (output_list mode_device)" "11 \<in> set (set_outputs move_request)"
    by (simp_all add: mode_device_def empty_device_def move_request_def)
  have ne: "\<not> drm_mode_equal (std_mode drm_h) (crtc_mode (crtcs mode_device 1))"
    by (simp add: mode_device_def empty_device_def zero_crtc_def zero_mode_def std_mode_def
        drm_mode_equal_def drm_h_def)
  have rep: "\<not> set_mode_repositions mode_device 1 (std_mode drm_h)
       (set_x move_request) (set_y move_request)"
    by (simp add: set_mode_repositions_def mode_device_def empty_device_def zero_crtc_def
        zero_mode_def std_mode_def drm_mode_equal_def drm_h_def)
  have rc: "\<forall>adj. \<not> fst (crtc_mode_fixup crtc_reject_driver 1 (std_mode drm_h) adj)"
    by (simp add: crtc_reject_driver_def accept_driver_def)
  have ro: "\<forall>adj. \<not> fst (output_mode_fixup reject_driver 11 (std_mode drm_h) adj)"
    by (simp add: reject_driver_def accept_driver_def)
  have old: "output_crtc (outputs mode_device 10) = Some 1"
    "output_crtc (outputs mode_device 11) = None"
    "crtc_enabled (crtcs mode_device 1)" "crtc_mode (crtcs mode_device 1) = zero_mode"
    by (simp_all add: mode_device_def empty_device_def zero_crtc_def zero_output_def)
  note t1 = set_config_rollback[OF h, of crtc_reject_driver True "Some 40" True]
  from t1[THEN conjunct2, THEN conjunct2] ne
  have ch1: "set_config_changed crtc_reject_driver mode_device move_request 1" by blast
  from l have bnd: "\<exists>out\<in>set (output_list mode_device). out \<in> set (set_outputs move_request)"
    by blast
  from t1[THEN conjunct2, THEN conjunct1, THEN mp] ch1 bnd rep rc
  obtain dev1 es1 where r1: "drm_crtc_set_config crtc_reject_driver mode_device True (Some 40)
      True (Some move_request) = Some (- EINVAL, dev1, es1)"
    "\<forall>out. output_crtc (outputs dev1 out) = output_crtc (outputs mode_device out)"
    "crtc_mode (crtcs dev1 1) = crtc_mode (crtcs mode_device 1)"
    "crtc_enabled (crtcs dev1 1) = crtc_enabled (crtcs mode_device 1)"
    by blast
  have e1: "\<exists>d. drm_crtc_set_config crtc_reject_driver mode_device True (Some 40) True
      (Some move_request) = Some (- 22, d, [Output_mode_fixup 11 True, Crtc_mode_fixup 1 False])"
    by (simp add: drm_crtc_set_config_def set_config_bind_def set_config_restore_def
        output_upd_def move_request_def EINVAL_def
        drm_crtc_set_mode_def drm_mode_duplicate_def drm_mode_create_def
        drm_idr_get_def idr_get_new_above_def MAX_ID_def crtc_upd_def drm_crtc_in_use_def
        crtc_outputs_def call_fixup_def crtc_reject_driver_def accept_driver_def mode_device_def
        empty_device_def zero_crtc_def zero_output_def zero_mode_def std_mode_def
        drm_mode_equal_def drm_h_def Let_def)
  from e1 r1 old have c1: "\<exists>dev'. drm_crtc_set_config crtc_reject_driver mode_device True (Some 40) True
              (Some move_request)
              = Some (- 22, dev', [Output_mode_fixup 11 True, Crtc_mode_fixup 1 False]) \<and>
            output_crtc (outputs dev' 10) = Some 1 \<and> output_crtc (outputs dev' 11) = None \<and>
            crtc_enabled (crtcs dev' 1) \<and> crtc_mode (crtcs dev' 1) = zero_mode"
    by auto
  note t2 = set_config_rollback[OF h, of reject_driver True "Some 40" True]
  from t2[THEN conjunct2, THEN conjunct2] ne
  have ch2: "set_config_changed reject_driver mode_device move_request 1" by blast
  from l ro have bo: "\<exists>out\<in>set (output_list mode_device). out \<in> set (set_outputs move_request) \<and>
      (\<forall>adj. \<not> fst (output_mode_fixup reject_driver out (std_mode drm_h) adj))"
    by blast
  from t2[THEN conjunct2, THEN conjunct1, THEN mp] ch2 bnd rep bo
  obtain dev2 es2 where r2: "drm_crtc_set_config reject_driver mode_device True (Some 40)
      True (Some move_request) = Some (- EINVAL, dev2, es2)"
    "\<forall>out. output_crtc (outputs dev2 out) = output_crtc (outputs mode_device out)"
    "crtc_mode (crtcs dev2 1) = crtc_mode (crtcs mode_device 1)"
    "crtc_enabled (crtcs dev2 1) = crtc_enabled (crtcs mode_device 1)"
    by blast
  have e2: "\<exists>d. drm_crtc_set_config reject_driver mode_device True (Some 40) True
      (Some move_request) = Some (- 22, d, [Output_mode_fixup 11 False])"
    by (simp add: drm_crtc_set_config_def set_config_bind_def set_config_restore_def
        output_upd_def move_request_def EINVAL_def
        drm_crtc_set_mode_def drm_mode_duplicate_def drm_mode_create_def
        drm_idr_get_def idr_get_new_above_def MAX_ID_def crtc_upd_def drm_crtc_in_use_def
        crtc_outputs_def call_fixup_def reject_driver_def accept_driver_def mode_device_def
        empty_device_def zero_crtc_def zero_output_def zero_mode_def std_mode_def
        drm_mode_equal_def drm_h_def Let_def)
  from e2 r2 old have c2: "\<exists>dev'. drm_crtc_set_config reject_driver mode_device True (Some 40) True
              (Some move_request) = Some (- 22, dev', [Output_mode_fixup 11 False]) \<and>
            output_crtc (outputs dev' 10) = Some 1 \<and> output_crtc (outputs dev' 11) = None \<and>
            crtc_enabled (crtcs dev' 1) \<and> crtc_mode (crtcs dev' 1) = zero_mode"
    by auto
  from h ch1 l rep rc c1 ro ch2 c2 show ?thesis by blast
qed

subsection \<open>The assignment of CRTCs\<close>





lemma crtc_mask_values:
  "crtc_mask 0 = Some 1 \<and> crtc_mask 1 = Some 2 \<and> crtc_mask 30 = Some (2 ^ 30) \<and>
   crtc_mask 31 = Some 0xFFFFFFFF80000000 \<and> crtc_mask 32 = None"
  by (simp add: crtc_mask_def)

lemma crtc_mask_low: "c < 31 \<Longrightarrow> crtc_mask c = Some (2 ^ c)"
proof -
  assume c: "c < 31"
  have lt: "(2::int) ^ c < 2 ^ 31" using c by (intro power_strict_increasing) simp_all
  have ge: "- (2 ^ 31) \<le> (2::int) ^ c" by (rule order_trans[of _ 0]) simp_all
  have "(2::32 word) ^ c = word_of_int (2 ^ c)" by simp
  then have "sint ((2::32 word) ^ c) = signed_take_bit 31 ((2::int) ^ c)"
    by (simp only: sint_sbintrunc') simp
  also have "\<dots> = 2 ^ c" using lt ge by (simp add: signed_take_bit_int_eq_self)
  finally have "sint (push_bit c (1 :: 32 word)) = 2 ^ c" by (simp add: push_bit_eq_mult)
  then have "(scast (push_bit c (1 :: 32 word)) :: 64 word) = 2 ^ c" by (simp add: scast_eq)
  with c show ?thesis by (simp add: crtc_mask_def)
qed











subsection \<open>The fallback mode of the prober\<close>

lemma probe_validated_probed:
  "probed_modes (outputs (probe_validated drv dev out maxX maxY) out) =
     (if snd (output_get_modes drv out) \<noteq> 0 then []
      else fst (output_get_modes drv out) @ probed_modes (outputs dev out))"
  by (simp add: probe_validated_def probe_detect_def output_upd_def
      drm_mode_output_list_update_def Let_def)

lemma probe_detect_status:
  "output_status (outputs (probe_detect drv dev out) out) = output_detect drv out"
  by (simp add: probe_detect_def output_upd_def)

lemma drm_mode_duplicate_Some:
  "\<exists>i dev'. drm_mode_duplicate dev (Some a) pre m = (Some (m\<lparr>mode_id := i\<rparr>), dev') \<and>
     outputs dev' = outputs dev"
proof -
  obtain i d where g: "drm_idr_get dev pre a = (i, d)" by (cases "drm_idr_get dev pre a")
  from drm_idr_get_cases[OF g] have "outputs d = outputs dev" by auto
  with g show ?thesis
    by (intro exI[of _ i] exI[of _ d]) (simp add: drm_mode_duplicate_def drm_mode_create_def)
qed

text \<open>
  Claim C3, as the code has it. Take an output that is not reported disconnected, whose
  usable list is empty after the pruning of line 379, and whose probed list holds nothing at
  that point: it was empty on entry, and \<^verbatim>\<open>get_modes\<close> returns 0 only when it has added no
  mode. When the mode can be allocated, \<^verbatim>\<open>drm_crtc_probe_single_output_modes\<close> returns
  and leaves exactly one mode in the usable list (when it cannot, the \<^verbatim>\<open>NULL\<close> duplicate
  is linked into the probed list, a fault): the built-in 640x480 mode (pixel clock
  25200 kHz, 800 by 525 in total, which is 60 Hz) with an identifier of its own and its
  refresh field derived by \<^verbatim>\<open>drm_mode_vrefresh\<close>. The type of that mode is
  \<^verbatim>\<open>DRM_MODE_TYPE_DEFAULT\<close>: it is flagged preferred only if that macro shares a bit with
  \<^verbatim>\<open>DRM_MODE_TYPE_PREFERRED\<close>.
\<close>

theorem probe_fallback_mode:
  assumes "output_detect drv out \<noteq> output_status_disconnected"
    and "modes (outputs (probe_validated drv dev out maxX maxY) out) = []"
    and "probed_modes (outputs dev out) = []"
    and "snd (output_get_modes drv out) = 0 \<longrightarrow> fst (output_get_modes drv out) = []"
  shows "(\<exists>dev' i m. drm_crtc_probe_single_output_modes drv H dev (Some a) pre out maxX maxY
             = Some dev' \<and>
           modes (outputs dev' out) = [m] \<and> probed_modes (outputs dev' out) = [] \<and>
           m = (std_mode H)\<lparr>mode_id := i,
                 vrefresh := drm_mode_vrefresh H ((std_mode H)\<lparr>mode_id := i\<rparr>)\<rparr> \<and>
           mode_name m = ''640x480'' \<and> hdisplay m = 640 \<and> vdisplay m = 480 \<and>
           clock m = 25200 \<and> htotal m = 800 \<and> vtotal m = 525 \<and>
           (clock m * 1000) div (htotal m * vtotal m) = 60 \<and>
           mode_status m = MODE_OK \<and>
           mode_type m = DRM_MODE_TYPE_DEFAULT H \<and>
           (mode_preferred H m \<longleftrightarrow>
              DRM_MODE_TYPE_DEFAULT H AND DRM_MODE_TYPE_PREFERRED H \<noteq> 0)) \<and>
         drm_crtc_probe_single_output_modes drv H dev None pre out maxX maxY = None"
proof -
  define dev6 where "dev6 = probe_validated drv dev out maxX maxY"
  from assms(3,4) have p: "probed_modes (outputs dev6 out) = []"
    by (auto simp: dev6_def probe_validated_probed)
  obtain i d where d: "drm_mode_duplicate dev6 (Some a) pre (std_mode H) =
      (Some ((std_mode H)\<lparr>mode_id := i\<rparr>), d)" "outputs d = outputs dev6"
    using drm_mode_duplicate_Some[of dev6 a pre "std_mode H"] by blast
  define m where "m = (std_mode H)\<lparr>mode_id := i,
                 vrefresh := drm_mode_vrefresh H ((std_mode H)\<lparr>mode_id := i\<rparr>)\<rparr>"
  define dev' where "dev' = probe_finish H (output_upd d out
                  (\<lambda>ou. ou\<lparr>modes := modes ou @ ((std_mode H)\<lparr>mode_id := i\<rparr> # probed_modes ou),
                          probed_modes := []\<rparr>)) out"
  have run: "drm_crtc_probe_single_output_modes drv H dev (Some a) pre out maxX maxY = Some dev'"
    using assms(1,2) d(1)
    by (simp add: drm_crtc_probe_single_output_modes_def probe_detect_status
        dev6_def[symmetric] probe_fallback_def dev'_def Let_def)
  have ms: "modes (outputs dev' out) = [m]" "probed_modes (outputs dev' out) = []"
    using assms(2) p d(2)
    by (simp_all add: dev'_def probe_finish_def output_upd_def dev6_def[symmetric]
        drm_mode_sort_def m_def)
  have fields: "mode_name m = ''640x480'' \<and> hdisplay m = 640 \<and> vdisplay m = 480 \<and>
           clock m = 25200 \<and> htotal m = 800 \<and> vtotal m = 525 \<and>
           (clock m * 1000) div (htotal m * vtotal m) = 60 \<and>
           mode_status m = MODE_OK \<and>
           mode_type m = DRM_MODE_TYPE_DEFAULT H \<and>
           (mode_preferred H m \<longleftrightarrow>
              DRM_MODE_TYPE_DEFAULT H AND DRM_MODE_TYPE_PREFERRED H \<noteq> 0)"
    by (simp add: m_def std_mode_def mode_preferred_def)
  have null: "drm_crtc_probe_single_output_modes drv H dev None pre out maxX maxY = None"
    using assms(1,2)
    by (simp add: drm_crtc_probe_single_output_modes_def probe_detect_status
        probe_fallback_def drm_mode_duplicate_def drm_mode_create_def Let_def)
  from run ms fields m_def null show ?thesis by blast
qed

text \<open>
  Claim C3 as stated fails on the preferred flag. With the macros as the headers define
  them (\<^verbatim>\<open>DRM_MODE_TYPE_PREFERRED\<close> is bit 3, \<^verbatim>\<open>DRM_MODE_TYPE_DEFAULT\<close> is bit 4), the
  probe of a connected output without modes leaves one mode, of type 16, and that mode is
  not flagged preferred.
\<close>

theorem probe_fallback_not_preferred:
  "modes (outputs (probe_validated accept_driver probe_device 10 2048 2048) 10) = [] \<and>
   (\<exists>dev'. drm_crtc_probe_single_output_modes accept_driver drm_h probe_device (Some 40) True
              10 2048 2048 = Some dev' \<and>
            length (modes (outputs dev' 10)) = 1 \<and>
            mode_type (hd (modes (outputs dev' 10))) = 16 \<and>
            \<not> mode_preferred drm_h (hd (modes (outputs dev' 10))))"
  by (simp add: drm_crtc_probe_single_output_modes_def probe_validated_def probe_detect_def
      probe_fallback_def probe_finish_def output_upd_def drm_mode_duplicate_def
      drm_mode_create_def drm_idr_get_def idr_get_new_above_def MAX_ID_def
      drm_mode_validate_size_def drm_mode_prune_invalid_def drm_mode_sort_def
      accept_driver_def probe_device_def empty_device_def zero_output_def zero_mode_def
      std_mode_def mode_preferred_def drm_h_def Let_def)

text \<open>The theorem at the same probe.\<close>

theorem probe_fallback_mode_witness:
  "output_detect accept_driver 10 \<noteq> output_status_disconnected \<and>
   modes (outputs (probe_validated accept_driver probe_device 10 2048 2048) 10) = [] \<and>
   probed_modes (outputs probe_device 10) = [] \<and>
   fst (output_get_modes accept_driver 10) = [] \<and>
   (\<exists>dev'. drm_crtc_probe_single_output_modes accept_driver drm_h probe_device (Some 40) True
              10 2048 2048 = Some dev' \<and>
            map hdisplay (modes (outputs dev' 10)) = [640] \<and>
            map vdisplay (modes (outputs dev' 10)) = [480] \<and>
            map mode_type (modes (outputs dev' 10)) = [16])"
proof -
  have h: "output_detect accept_driver 10 \<noteq> output_status_disconnected"
    "modes (outputs (probe_validated accept_driver probe_device 10 2048 2048) 10) = []"
    "probed_modes (outputs probe_device 10) = []"
    "fst (output_get_modes accept_driver 10) = []"
    by (simp_all add: probe_validated_def probe_detect_def output_upd_def
        drm_mode_validate_size_def drm_mode_prune_invalid_def
        accept_driver_def probe_device_def empty_device_def zero_output_def Let_def)
  from probe_fallback_mode[OF h(1,2,3), of drm_h 40 True] h(4)
  obtain dev' m where r: "drm_crtc_probe_single_output_modes accept_driver drm_h probe_device
      (Some 40) True 10 2048 2048 = Some dev'" "modes (outputs dev' 10) = [m]"
      "hdisplay m = 640" "vdisplay m = 480" "mode_type m = DRM_MODE_TYPE_DEFAULT drm_h"
    by blast
  then have "map hdisplay (modes (outputs dev' 10)) = [640] \<and>
            map vdisplay (modes (outputs dev' 10)) = [480] \<and>
            map mode_type (modes (outputs dev' 10)) = [16]"
    by (simp add: drm_h_def)
  with h r(1) show ?thesis by auto
qed

end
